theory Spec2Isabelle
  imports Complex_Main "HOL-Library.Product_Lexorder" "HOL-Library.Option_ord"
    "HOL-Library.Char_ord" "HOL-Library.List_Lexorder"
begin

section \<open>Floating-point values\<close>

text \<open>
  A pandas amount is a \<open>float64\<close>. The model keeps the special values the program
  produces and tests for (\<open>float("inf")\<close>, \<open>float("nan")\<close>, \<open>np.nan\<close>,
  \<open>np.isfinite\<close>, \<open>fillna\<close>) and reads every finite value as an exact rational:
  rounding, overflow and the sign of zero are not modelled.
\<close>

datatype fl = Fin rat | PInf | NInf | NaN

fun isnan :: "fl \<Rightarrow> bool" where
  "isnan NaN = True"
| "isnan _ = False"

fun isfinite :: "fl \<Rightarrow> bool" where
  "isfinite (Fin _) = True"
| "isfinite _ = False"

fun fneg :: "fl \<Rightarrow> fl" where
  "fneg (Fin a) = Fin (- a)"
| "fneg PInf = NInf"
| "fneg NInf = PInf"
| "fneg NaN = NaN"

fun fadd :: "fl \<Rightarrow> fl \<Rightarrow> fl" where
  "fadd (Fin a) (Fin b) = Fin (a + b)"
| "fadd NaN _ = NaN"
| "fadd _ NaN = NaN"
| "fadd PInf NInf = NaN"
| "fadd NInf PInf = NaN"
| "fadd PInf _ = PInf"
| "fadd _ PInf = PInf"
| "fadd NInf _ = NInf"
| "fadd _ NInf = NInf"

definition fsub :: "fl \<Rightarrow> fl \<Rightarrow> fl" where
  "fsub a b = fadd a (fneg b)"

text \<open>The infinity whose sign is the sign of \<open>a\<close> times the sign of the flag.\<close>

definition signed_inf :: "rat \<Rightarrow> bool \<Rightarrow> fl" where
  "signed_inf a pos = (if a = 0 then NaN else if (0 < a) = pos then PInf else NInf)"

fun fmul :: "fl \<Rightarrow> fl \<Rightarrow> fl" where
  "fmul (Fin a) (Fin b) = Fin (a * b)"
| "fmul NaN _ = NaN"
| "fmul _ NaN = NaN"
| "fmul (Fin a) PInf = signed_inf a True"
| "fmul (Fin a) NInf = signed_inf a False"
| "fmul PInf (Fin b) = signed_inf b True"
| "fmul NInf (Fin b) = signed_inf b False"
| "fmul PInf PInf = PInf"
| "fmul PInf NInf = NInf"
| "fmul NInf PInf = NInf"
| "fmul NInf NInf = PInf"

text \<open>
  Division as numpy and pandas do it: a zero divisor gives an infinity or NaN, never an
  exception. (Every division of Python floats in the program sits behind a test that the
  divisor is not zero.)
\<close>

fun fdiv :: "fl \<Rightarrow> fl \<Rightarrow> fl" where
  "fdiv (Fin a) (Fin b) = (if b = 0 then signed_inf a True else Fin (a / b))"
| "fdiv NaN _ = NaN"
| "fdiv _ NaN = NaN"
| "fdiv (Fin a) _ = Fin 0"
| "fdiv PInf (Fin b) = (if 0 \<le> b then PInf else NInf)"
| "fdiv NInf (Fin b) = (if 0 \<le> b then NInf else PInf)"
| "fdiv _ _ = NaN"

text \<open>Comparisons: every comparison with NaN is false, except \<open>!=\<close>.\<close>

fun flt :: "fl \<Rightarrow> fl \<Rightarrow> bool" where
  "flt (Fin a) (Fin b) = (a < b)"
| "flt NaN _ = False"
| "flt _ NaN = False"
| "flt _ NInf = False"
| "flt PInf _ = False"
| "flt _ _ = True"

definition fle :: "fl \<Rightarrow> fl \<Rightarrow> bool" where
  "fle a b = (\<not> isnan a \<and> \<not> isnan b \<and> (a = b \<or> flt a b))"

definition feq :: "fl \<Rightarrow> fl \<Rightarrow> bool" where
  "feq a b = (\<not> isnan a \<and> a = b)"

definition fabs :: "fl \<Rightarrow> fl" where
  "fabs a = (if flt a (Fin 0) then fneg a else a)"

text \<open>\<open>Series.sum()\<close>: NaN entries are skipped, the empty sum is 0.\<close>

definition fsum :: "fl list \<Rightarrow> fl" where
  "fsum xs = foldl fadd (Fin 0) (filter (\<lambda>x. \<not> isnan x) xs)"

text \<open>\<open>Series.mean()\<close>: NaN entries are skipped, the mean of nothing is NaN.\<close>

definition fmean :: "fl list \<Rightarrow> fl" where
  "fmean xs =
     (let ys = filter (\<lambda>x. \<not> isnan x) xs in
      if ys = [] then NaN else fdiv (foldl fadd (Fin 0) ys) (Fin (of_nat (length ys))))"

section \<open>Strings and labels\<close>

text \<open>
  Labels are Python strings; the model reads them as ASCII character lists.
  \<open>str.lower\<close> maps the upper-case Latin letters to lower case and leaves every other
  character alone.
\<close>

definition lower_char :: "char \<Rightarrow> char" where
  "lower_char c =
     (case map_of (zip ''ABCDEFGHIJKLMNOPQRSTUVWXYZ'' ''abcdefghijklmnopqrstuvwxyz'') c of
        Some d \<Rightarrow> d
      | None \<Rightarrow> c)"

definition lower :: "string \<Rightarrow> string" where
  "lower s = map lower_char s"

text \<open>\<open>s.startswith(p)\<close>.\<close>

fun startswith :: "string \<Rightarrow> string \<Rightarrow> bool" where
  "startswith s [] = True"
| "startswith [] (p # ps) = False"
| "startswith (c # cs) (p # ps) = (c = p \<and> startswith cs ps)"

text \<open>\<open>sub in s\<close>, and \<open>s.str.contains(sub)\<close> for a pattern without metacharacters.\<close>

fun contains :: "string \<Rightarrow> string \<Rightarrow> bool" where
  "contains [] sub = (sub = [])"
| "contains (c # cs) sub = (startswith (c # cs) sub \<or> contains cs sub)"

text \<open>The characters the regular expression class \<open>\w\<close> matches (ASCII).\<close>

definition is_word_char :: "char \<Rightarrow> bool" where
  "is_word_char c \<longleftrightarrow>
     c \<in> set ''abcdefghijklmnopqrstuvwxyzABCDEFGHIJKLMNOPQRSTUVWXYZ0123456789_''"

text \<open>
  \<open>re.search(r"\bw\b", s)\<close> for a word \<open>w\<close> of word characters: \<open>w\<close> occurs at a place
  where the character before it (if any) and the character after it (if any) are not
  word characters. The flag says whether the character before the current position is a
  word character.
\<close>

fun search_word :: "string \<Rightarrow> bool \<Rightarrow> string \<Rightarrow> bool" where
  "search_word w prev [] = False"
| "search_word w prev (c # cs) =
     ((\<not> prev \<and> startswith (c # cs) w \<and>
        (case drop (length w) (c # cs) of [] \<Rightarrow> True | d # _ \<Rightarrow> \<not> is_word_char d))
      \<or> search_word w (is_word_char c) cs)"

definition contains_word :: "string \<Rightarrow> string \<Rightarrow> bool" where
  "contains_word s w = search_word w False s"

text \<open>
  The three label tests of \<open>_is_revenue_labels\<close>, \<open>_is_cogs_labels\<close> and
  \<open>_is_opex_labels\<close>, on one label that \<open>astype(str)\<close> has already turned into a string.
\<close>

definition is_revenue_label :: "string \<Rightarrow> bool" where
  "is_revenue_label l = (let s = lower l in s = ''revenue'' \<or> contains_word s ''sales'')"

definition is_cogs_label :: "string \<Rightarrow> bool" where
  "is_cogs_label l = (let s = lower l in s = ''cogs'' \<or> contains s ''cost of goods'')"

definition is_opex_label :: "string \<Rightarrow> bool" where
  "is_opex_label l = (let s = lower l in startswith s ''opex'' \<or> contains s ''operating expense'')"

text \<open>
  The exclusivity the specification expects of the three tests: no two of them hold of
  the same label.
\<close>

definition at_most_one :: "bool \<Rightarrow> bool \<Rightarrow> bool \<Rightarrow> bool" where
  "at_most_one a b c = (\<not> (a \<and> b) \<and> \<not> (a \<and> c) \<and> \<not> (b \<and> c))"

section \<open>Tables\<close>

text \<open>
  A cell of a pandas table: a missing value (NaN, None, NaT), a number, a string or a
  timestamp, of which the program reads the calendar date only (year, month, day).
\<close>

datatype cell = Null | Num fl | Str string | Stamp int int int

datatype dtype = Numeric | Object | Datetime

text \<open>The exceptions the program raises or lets pass.\<close>

datatype error = ValueError | KeyError | TypeError

text \<open>
  A \<open>DataFrame\<close>: the ordered columns with the type pandas gave each, and the rows, each
  a map from column name to cell. Column names are taken to be distinct, and the row
  labels (the index) are not modelled: a column is read and written by position.
\<close>

record frame =
  columns :: "(string \<times> dtype) list"
  rows :: "(string \<rightharpoonup> cell) list"

definition col_names :: "frame \<Rightarrow> string list" where
  "col_names df = map fst (columns df)"

definition cell_of :: "(string \<rightharpoonup> cell) \<Rightarrow> string \<Rightarrow> cell" where
  "cell_of r c = (case r c of Some v \<Rightarrow> v | None \<Rightarrow> Null)"

text \<open>\<open>df[c]\<close>.\<close>

definition column :: "frame \<Rightarrow> string \<Rightarrow> cell list" where
  "column df c = map (\<lambda>r. cell_of r c) (rows df)"

text \<open>\<open>df[c] = values\<close>: the column is replaced where it stands, or added last.\<close>

definition set_column :: "string \<Rightarrow> dtype \<Rightarrow> cell list \<Rightarrow> frame \<Rightarrow> frame" where
  "set_column c t vs df =
     \<lparr>columns =
        (if c \<in> set (col_names df)
         then map (\<lambda>(n, t'). if n = c then (n, t) else (n, t')) (columns df)
         else columns df @ [(c, t)]),
      rows = map (\<lambda>(r, v). r(c \<mapsto> v)) (zip (rows df) vs)\<rparr>"

text \<open>\<open>df[mask]\<close> for a test of the row.\<close>

definition select_rows :: "((string \<rightharpoonup> cell) \<Rightarrow> bool) \<Rightarrow> frame \<Rightarrow> frame" where
  "select_rows p df = \<lparr>columns = columns df, rows = filter p (rows df)\<rparr>"

text \<open>\<open>isna\<close>: a missing value, in a numeric column the float NaN.\<close>

fun isna :: "cell \<Rightarrow> bool" where
  "isna Null = True"
| "isna (Num x) = isnan x"
| "isna _ = False"

section \<open>Library functions taken as parameters\<close>

text \<open>
  What pandas, numpy and dateutil do to a single value is not part of the repository. It
  enters as a parameter, and every theorem holds for all values of it:
  \<^item> \<open>parse_date\<close>: \<open>pd.to_datetime(s, errors="coerce")\<close> on one string, \<open>None\<close> for NaT;
  \<^item> \<open>date_of_num\<close>: the same on one number;
  \<^item> \<open>num_of_str\<close>, \<open>num_of_stamp\<close>: \<open>pd.to_numeric(x, errors="coerce")\<close> on a string and
    on a timestamp, NaN when it does not parse;
  \<^item> \<open>str_of_num\<close>, \<open>str_of_stamp\<close>: \<open>str(x)\<close> as \<open>astype(str)\<close> gives it;
  \<^item> \<open>int_of_cell\<close>: \<open>astype(int)\<close> on one value, \<open>None\<close> where it raises;
  \<^item> \<open>py_int\<close>: \<open>int(s)\<close>, \<open>None\<close> where it raises;
  \<^item> \<open>dtparse\<close>: \<open>dateutil.parser.parse(s)\<close>, \<open>None\<close> where it raises.
\<close>

record lib =
  parse_date :: "string \<Rightarrow> (int \<times> int \<times> int) option"
  date_of_num :: "fl \<Rightarrow> (int \<times> int \<times> int) option"
  num_of_str :: "string \<Rightarrow> fl"
  num_of_stamp :: "int \<Rightarrow> int \<Rightarrow> int \<Rightarrow> fl"
  str_of_num :: "fl \<Rightarrow> string"
  str_of_stamp :: "int \<Rightarrow> int \<Rightarrow> int \<Rightarrow> string"
  int_of_cell :: "cell \<Rightarrow> int option"
  py_int :: "string \<Rightarrow> int option"
  dtparse :: "string \<Rightarrow> (int \<times> int \<times> int) option"

text \<open>
  \<open>pd.to_datetime(x, errors="coerce")\<close> on one cell: a timestamp is kept, a missing value
  stays missing, a string or a number is parsed.
\<close>

fun to_datetime :: "lib \<Rightarrow> cell \<Rightarrow> (int \<times> int \<times> int) option" where
  "to_datetime L Null = None"
| "to_datetime L (Stamp y m d) = Some (y, m, d)"
| "to_datetime L (Str s) = parse_date L s"
| "to_datetime L (Num x) = (if isnan x then None else date_of_num L x)"

text \<open>\<open>.dt.to_period("M").dt.to_timestamp()\<close>: the first day of the month; NaT stays.\<close>

fun month_start :: "(int \<times> int \<times> int) option \<Rightarrow> cell" where
  "month_start None = Null"
| "month_start (Some (y, m, d)) = Stamp y m 1"

text \<open>\<open>pd.to_numeric(x, errors="coerce")\<close> on one cell.\<close>

fun to_numeric :: "lib \<Rightarrow> cell \<Rightarrow> fl" where
  "to_numeric L Null = NaN"
| "to_numeric L (Num x) = x"
| "to_numeric L (Str s) = num_of_str L s"
| "to_numeric L (Stamp y m d) = num_of_stamp L y m d"

text \<open>
  \<open>astype(str)\<close> on one cell. A missing value prints as \<open>nan\<close> (as \<open>None\<close> or \<open>NaT\<close> in
  an object or datetime column; no test of the program tells the three apart).
\<close>

fun cell_str :: "lib \<Rightarrow> cell \<Rightarrow> string" where
  "cell_str L Null = ''nan''"
| "cell_str L (Str s) = s"
| "cell_str L (Num x) = (if isnan x then ''nan'' else str_of_num L x)"
| "cell_str L (Stamp y m d) = str_of_stamp L y m d"

section \<open>Period normalizer\<close>

text \<open>
  \<open>try_parse_series\<close>: the share of values that parse is compared with the required
  ratio; the mean of an empty column is NaN, which is not at least anything.
\<close>

definition try_parse_series :: "lib \<Rightarrow> cell list \<Rightarrow> rat \<Rightarrow> cell list option" where
  "try_parse_series L s require_ratio =
     (let ts = map (to_datetime L) s in
      if s \<noteq> [] \<and>
         require_ratio \<le> of_nat (length (filter (\<lambda>t. t \<noteq> None) ts)) / of_nat (length s)
      then Some (map month_start ts)
      else None)"

text \<open>\<open>df[df.columns[cols.index(lc)]]\<close>: the first column whose lower-cased name is \<open>lc\<close>.\<close>

definition column_lower :: "frame \<Rightarrow> string \<Rightarrow> cell list" where
  "column_lower df lc =
     (case find (\<lambda>c. lower c = lc) (col_names df) of
        Some c \<Rightarrow> column df c
      | None \<Rightarrow> [])"

text \<open>The fast path: an existing \<open>period\<close> column of which at least one value parses.\<close>

definition period_fast_path :: "lib \<Rightarrow> frame \<Rightarrow> frame option" where
  "period_fast_path L df =
     (if ''period'' \<in> set (map lower (col_names df))
      then (let ts_any = map (to_datetime L) (column_lower df ''period'') in
            if list_ex (\<lambda>t. t \<noteq> None) ts_any
            then Some (set_column ''period'' Datetime (map month_start ts_any) df)
            else None)
      else None)"

text \<open>Strategy 1: the columns whose name holds a date-like keyword, in column order.\<close>

definition date_keywords :: "string list" where
  "date_keywords = [''date'', ''month_year'', ''mnth_yr'', ''monthyr'', ''yr_mo'', ''yyyymm'',
     ''period_start'', ''period_end'', ''time'']"

fun first_parsed :: "lib \<Rightarrow> frame \<Rightarrow> string list \<Rightarrow> frame option" where
  "first_parsed L df [] = None"
| "first_parsed L df (dc # dcs) =
     (case try_parse_series L (column_lower df dc) (6 / 10) of
        Some parsed \<Rightarrow> Some (set_column ''period'' Datetime parsed df)
      | None \<Rightarrow> first_parsed L df dcs)"

definition period_by_date_name :: "lib \<Rightarrow> frame \<Rightarrow> frame option" where
  "period_by_date_name L df =
     first_parsed L df
       (filter (\<lambda>c. list_ex (\<lambda>k. contains c k) date_keywords) (map lower (col_names df)))"

text \<open>
  Strategy 2: a year column and a month column. \<open>to_month_number\<close> reads a month as an
  integer or, failing that, through the date parser. \<open>pd.to_datetime\<close> of the year, the
  month and day 1 raises on a month outside 1..12 and on a date outside the range of a
  pandas timestamp (1677-10-01 to 2262-04-01 for a first of the month).
\<close>

definition strip_spaces :: "string \<Rightarrow> string" where
  "strip_spaces s = rev (dropWhile (\<lambda>c. c = CHR '' '') (rev (dropWhile (\<lambda>c. c = CHR '' '') s)))"

definition to_month_number :: "lib \<Rightarrow> cell \<Rightarrow> int option" where
  "to_month_number L x =
     (case py_int L (strip_spaces (cell_str L x)) of
        Some n \<Rightarrow> Some n
      | None \<Rightarrow> map_option (\<lambda>(y, m, d). m) (dtparse L (cell_str L x)))"

definition assemble_date :: "int \<Rightarrow> int \<Rightarrow> cell option" where
  "assemble_date y m =
     (if 1 \<le> m \<and> m \<le> 12 \<and> (1677 < y \<or> (y = 1677 \<and> 10 \<le> m)) \<and>
         (y < 2262 \<or> (y = 2262 \<and> m \<le> 4))
      then Some (Stamp y m 1)
      else None)"

fun those_list :: "'a option list \<Rightarrow> 'a list option" where
  "those_list [] = Some []"
| "those_list (None # xs) = None"
| "those_list (Some x # xs) = map_option (\<lambda>ys. x # ys) (those_list xs)"

definition period_by_year_month :: "lib \<Rightarrow> frame \<Rightarrow> (error + frame) option" where
  "period_by_year_month L df =
     (let cols = map lower (col_names df);
          year_names = filter (\<lambda>n. n \<in> set cols) [''year'', ''yr''];
          month_names = filter (\<lambda>n. n \<in> set cols) [''month'', ''mo'', ''mnth'', ''mth'']
      in if year_names \<noteq> [] \<and> month_names \<noteq> []
         then Some
           (case those_list (map (int_of_cell L) (column_lower df (hd year_names))) of
              None \<Rightarrow> Inl ValueError
            | Some ys \<Rightarrow>
               (case those_list (map (to_month_number L) (column_lower df (hd month_names))) of
                  None \<Rightarrow> Inl ValueError
                | Some ms \<Rightarrow>
                   (case those_list (map (\<lambda>(y, m). assemble_date y m) (zip ys ms)) of
                      None \<Rightarrow> Inl ValueError
                    | Some ps \<Rightarrow> Inr (set_column ''period'' Datetime ps df))))
         else None)"

text \<open>
  Strategy 3: a column with a time-like name holding \<open>yyyymm\<close>. Every character other
  than a digit, \<open>-\<close>, \<open>/\<close>, \<open>_\<close> and the space is dropped, and a string of length 6 gets a
  hyphen after its fourth character.
\<close>

definition yyyymm_text :: "lib \<Rightarrow> cell \<Rightarrow> cell" where
  "yyyymm_text L x =
     (let s = filter (\<lambda>c. c \<in> set ''0123456789-/_ '') (cell_str L x)
      in Str (if length s = 6 then take 4 s @ ''-'' @ drop 4 s else s))"

fun first_yyyymm :: "lib \<Rightarrow> frame \<Rightarrow> string list \<Rightarrow> frame option" where
  "first_yyyymm L df [] = None"
| "first_yyyymm L df (c # cs) =
     (if list_ex (\<lambda>k. contains (lower c) k) [''time'', ''month'', ''date'', ''yyyymm'', ''yrmo'']
      then (case try_parse_series L (map (yyyymm_text L) (column df c)) (6 / 10) of
              Some parsed \<Rightarrow> Some (set_column ''period'' Datetime parsed df)
            | None \<Rightarrow> first_yyyymm L df cs)
      else first_yyyymm L df cs)"

text \<open>
  Strategy 4: every column is parsed, and the first one with the highest share of
  parsed values is taken, when that share is at least 60%.
\<close>

definition parse_score :: "lib \<Rightarrow> cell list \<Rightarrow> rat option" where
  "parse_score L s =
     (if s = [] then None
      else Some (of_nat (length (filter (\<lambda>x. to_datetime L x \<noteq> None) s)) / of_nat (length s)))"

fun best_column :: "lib \<Rightarrow> frame \<Rightarrow> string list \<Rightarrow> (cell list) option \<Rightarrow> rat \<Rightarrow> (cell list) option" where
  "best_column L df [] best best_score = best"
| "best_column L df (c # cs) best best_score =
     (case parse_score L (column df c) of
        None \<Rightarrow> best_column L df cs best best_score
      | Some score \<Rightarrow>
          if 6 / 10 \<le> score \<and> best_score < score
          then best_column L df cs (Some (column df c)) score
          else best_column L df cs best best_score)"

definition period_brute_force :: "lib \<Rightarrow> frame \<Rightarrow> frame option" where
  "period_brute_force L df =
     (case best_column L df (col_names df) None (- 1) of
        Some best \<Rightarrow>
          Some (set_column ''period'' Datetime (map (\<lambda>x. month_start (to_datetime L x)) best) df)
      | None \<Rightarrow> None)"

text \<open>\<open>_ensure_period_columns\<close>: the strategies in order, the first that succeeds wins.\<close>

definition ensure_period_columns :: "lib \<Rightarrow> frame \<Rightarrow> error + frame" where
  "ensure_period_columns L df =
     (case period_fast_path L df of
        Some r \<Rightarrow> Inr r
      | None \<Rightarrow>
         (case period_by_date_name L df of
            Some r \<Rightarrow> Inr r
          | None \<Rightarrow>
             (case period_by_year_month L df of
                Some r \<Rightarrow> r
              | None \<Rightarrow>
                 (case first_yyyymm L df (col_names df) of
                    Some r \<Rightarrow> Inr r
                  | None \<Rightarrow>
                     (case period_brute_force L df of
                        Some r \<Rightarrow> Inr r
                      | None \<Rightarrow> Inl ValueError)))))"

section \<open>Currency converter\<close>

text \<open>
  The rate source of the FX table: \<open>rate_to_usd\<close> if it is a column, else \<open>rate\<close>, else
  none (the converter raises).
\<close>

definition rate_column :: "frame \<Rightarrow> string option" where
  "rate_column fx =
     (if ''rate_to_usd'' \<in> set (col_names fx) then Some ''rate_to_usd''
      else if ''rate'' \<in> set (col_names fx) then Some ''rate''
      else None)"

text \<open>
  The join key of a row. pandas joins a missing key with a missing key, so every missing
  value is the same key.
\<close>

definition merge_key :: "(string \<rightharpoonup> cell) \<Rightarrow> cell \<times> cell" where
  "merge_key r =
     (let p = cell_of r ''period''; c = cell_of r ''currency''
      in (if isna p then Null else p, if isna c then Null else c))"

definition fx_matches :: "(string \<rightharpoonup> cell) list \<Rightarrow> (string \<rightharpoonup> cell) \<Rightarrow> (string \<rightharpoonup> cell) list" where
  "fx_matches fxrows r = filter (\<lambda>f. merge_key f = merge_key r) fxrows"

text \<open>
  The left join of one record with the FX rows: one output row for every FX row with
  the record's key, in the FX table's order, and one row with a missing rate when there
  is none.
\<close>

definition merge_row :: "string \<Rightarrow> (string \<rightharpoonup> cell) list \<Rightarrow> (string \<rightharpoonup> cell) \<Rightarrow> (string \<rightharpoonup> cell) list" where
  "merge_row rate_col fxrows r =
     (case fx_matches fxrows r of
        [] \<Rightarrow> [r(''rate_to_usd'' \<mapsto> Null)]
      | ms \<Rightarrow> map (\<lambda>f. r(''rate_to_usd'' \<mapsto> cell_of f rate_col)) ms)"

definition dtype_of :: "frame \<Rightarrow> string \<Rightarrow> dtype" where
  "dtype_of df c = (case map_of (columns df) c of Some t \<Rightarrow> t | None \<Rightarrow> Object)"

definition merge_left :: "string \<Rightarrow> frame \<Rightarrow> frame \<Rightarrow> frame" where
  "merge_left rate_col df fx =
     \<lparr>columns = columns df @ [(''rate_to_usd'', dtype_of fx rate_col)],
      rows = concat (map (merge_row rate_col (rows fx)) (rows df))\<rparr>"

text \<open>\<open>fillna(v)\<close> on one cell.\<close>

definition fillna :: "cell \<Rightarrow> cell \<Rightarrow> cell" where
  "fillna v c = (if isna c then v else c)"

definition fill_rate :: "frame \<Rightarrow> frame" where
  "fill_rate df =
     \<lparr>columns = columns df,
      rows = map (\<lambda>r. r(''rate_to_usd'' \<mapsto> fillna (Num (Fin 1)) (cell_of r ''rate_to_usd''))) (rows df)\<rparr>"

text \<open>
  The amount column: the one asked for if it is a column, else the first numeric column
  other than \<open>rate_to_usd\<close>, else none (the converter raises).
\<close>

definition resolve_amount :: "string \<Rightarrow> frame \<Rightarrow> string option" where
  "resolve_amount amount_col merged =
     (if amount_col \<in> set (col_names merged) then Some amount_col
      else (case filter (\<lambda>(n, t). t = Numeric \<and> n \<noteq> ''rate_to_usd'') (columns merged) of
              [] \<Rightarrow> None
            | (n, t) # _ \<Rightarrow> Some n))"

text \<open>\<open>pd.to_numeric(x, errors="coerce")\<close> followed by \<open>fillna(0)\<close>.\<close>

definition amount_value :: "lib \<Rightarrow> cell \<Rightarrow> fl" where
  "amount_value L c = (let x = to_numeric L c in if isnan x then Fin 0 else x)"

text \<open>
  The product of the amount and the rate cell. A rate that is not a number (a string or
  a timestamp in the FX table) makes the multiplication raise.
\<close>

fun times_rate :: "fl \<Rightarrow> cell \<Rightarrow> cell option" where
  "times_rate a (Num r) = Some (Num (fmul a r))"
| "times_rate a _ = None"

text \<open>
  \<open>_fx_to_usd\<close>, in two steps. The first runs from the default currency to the filled
  rate: the left table gets \<open>currency = "USD"\<close> if it has no such column, the FX table
  must name its rate, both tables are period-normalized, the FX table must have a
  \<open>currency\<close> column, and a left table that already has a \<open>rate_to_usd\<close> column leaves
  the join without a column of that name (pandas renames both), so reading it raises.
\<close>

definition default_currency :: "frame \<Rightarrow> frame" where
  "default_currency df =
     (if ''currency'' \<in> set (col_names df) then df
      else set_column ''currency'' Object (replicate (length (rows df)) (Str ''USD'')) df)"

definition fx_merged :: "lib \<Rightarrow> frame \<Rightarrow> frame \<Rightarrow> error + frame" where
  "fx_merged L df fx =
     (case rate_column fx of
        None \<Rightarrow> Inl ValueError
      | Some rate_col \<Rightarrow>
         (case ensure_period_columns L (default_currency df) of
            Inl e \<Rightarrow> Inl e
          | Inr df2 \<Rightarrow>
             (case ensure_period_columns L fx of
                Inl e \<Rightarrow> Inl e
              | Inr fx2 \<Rightarrow>
                 if ''currency'' \<notin> set (col_names fx2) \<or> ''rate_to_usd'' \<in> set (col_names df2)
                 then Inl KeyError
                 else Inr (fill_rate (merge_left rate_col df2 fx2)))))"

text \<open>The second step resolves the amount column and writes \<open>amount_usd\<close>.\<close>

definition fx_to_usd :: "lib \<Rightarrow> frame \<Rightarrow> frame \<Rightarrow> string \<Rightarrow> error + frame" where
  "fx_to_usd L df fx amount_col =
     (case fx_merged L df fx of
        Inl e \<Rightarrow> Inl e
      | Inr merged \<Rightarrow>
         (case resolve_amount amount_col merged of
            None \<Rightarrow> Inl ValueError
          | Some ac \<Rightarrow>
             (case those_list
                     (map (\<lambda>r. times_rate (amount_value L (cell_of r ac)) (cell_of r ''rate_to_usd''))
                        (rows merged)) of
                None \<Rightarrow> Inl TypeError
              | Some vs \<Rightarrow> Inr (set_column ''amount_usd'' Numeric vs merged))))"

text \<open>
  The check of the repository's conversion test,
  \<open>abs(row['amount_usd'] - expected_usd) < 0.01\<close>.
\<close>

definition within_tolerance :: "fl \<Rightarrow> fl \<Rightarrow> bool" where
  "within_tolerance x y = flt (fabs (fsub x y)) (Fin (1 / 100))"

section \<open>Category classifier\<close>

text \<open>\<open>_label_series\<close>: the account as a string, else the entity, else missing labels.\<close>

definition label_series :: "lib \<Rightarrow> frame \<Rightarrow> cell list" where
  "label_series L df =
     (if ''account'' \<in> set (col_names df) then map (\<lambda>c. Str (cell_str L c)) (column df ''account'')
      else if ''entity'' \<in> set (col_names df) then map (\<lambda>c. Str (cell_str L c)) (column df ''entity'')
      else replicate (length (rows df)) Null)"

definition is_revenue_labels :: "lib \<Rightarrow> cell list \<Rightarrow> bool list" where
  "is_revenue_labels L labels = map (\<lambda>c. is_revenue_label (cell_str L c)) labels"

definition is_cogs_labels :: "lib \<Rightarrow> cell list \<Rightarrow> bool list" where
  "is_cogs_labels L labels = map (\<lambda>c. is_cogs_label (cell_str L c)) labels"

definition is_opex_labels :: "lib \<Rightarrow> cell list \<Rightarrow> bool list" where
  "is_opex_labels L labels = map (\<lambda>c. is_opex_label (cell_str L c)) labels"

text \<open>\<open>df[mask]\<close> for a boolean column.\<close>

definition select_mask :: "bool list \<Rightarrow> frame \<Rightarrow> frame" where
  "select_mask m df =
     \<lparr>columns = columns df, rows = map fst (filter snd (zip (rows df) m))\<rparr>"

section \<open>Metric engine\<close>

text \<open>
  \<open>load_data()\<close> reads the four tables from disk on every call. Its result is a
  parameter of every metric: the loaded tables, whose \<open>period\<close> column holds month-start
  timestamps and missing values.
\<close>

record data =
  actuals :: frame
  budget :: frame
  fx :: frame
  cash :: frame

text \<open>The number in a numeric cell.\<close>

fun num_of :: "cell \<Rightarrow> fl" where
  "num_of (Num x) = x"
| "num_of _ = NaN"

text \<open>\<open>Series.eq(v)\<close> on one cell: a missing value equals nothing.\<close>

definition cell_eq :: "cell \<Rightarrow> cell \<Rightarrow> bool" where
  "cell_eq c v = (\<not> isna c \<and> \<not> isna v \<and> c = v)"

text \<open>\<open>df[df["period"].eq(period)]["amount_usd"].sum()\<close>.\<close>

definition period_sum :: "frame \<Rightarrow> cell \<Rightarrow> fl" where
  "period_sum df period =
     fsum (map (\<lambda>r. num_of (cell_of r ''amount_usd''))
            (filter (\<lambda>r. cell_eq (cell_of r ''period'') period) (rows df)))"

text \<open>The date of a timestamp cell, and the order of dates.\<close>

fun stamp_of :: "cell \<Rightarrow> (int \<times> int \<times> int) option" where
  "stamp_of (Stamp y m d) = Some (y, m, d)"
| "stamp_of _ = None"

fun date_less :: "int \<times> int \<times> int \<Rightarrow> int \<times> int \<times> int \<Rightarrow> bool" where
  "date_less (y, m, d) (y', m', d') = (y < y' \<or> (y = y' \<and> (m < m' \<or> (m = m' \<and> d < d'))))"

text \<open>\<open>Series.max()\<close> of a timestamp column: missing values are skipped, NaT if none is left.\<close>

definition period_max :: "cell list \<Rightarrow> cell" where
  "period_max cs =
     (case List.map_filter stamp_of cs of
        [] \<Rightarrow> Null
      | x # xs \<Rightarrow>
          (case fold (\<lambda>a b. if date_less b a then a else b) xs x of (y, m, d) \<Rightarrow> Stamp y m d))"

text \<open>
  The period a metric is asked for: the month of the parsed text, or the latest period
  of the actuals when the text is missing or empty. \<open>None\<close> when the text does not parse
  (the parser raises).
\<close>

definition requested_period :: "lib \<Rightarrow> data \<Rightarrow> string option \<Rightarrow> cell option" where
  "requested_period L d month_text =
     (case month_text of
        None \<Rightarrow> Some (period_max (column (actuals d) ''period''))
      | Some t \<Rightarrow>
          if t = [] then Some (period_max (column (actuals d) ''period''))
          else map_option (\<lambda>x. month_start (Some x)) (dtparse L t))"

text \<open>\<open>strftime("%B %Y")\<close>: the English month name and the year; it raises on NaT.\<close>

definition month_names :: "string list" where
  "month_names = [''January'', ''February'', ''March'', ''April'', ''May'', ''June'', ''July'',
     ''August'', ''September'', ''October'', ''November'', ''December'']"

fun digits :: "nat \<Rightarrow> string" where
  "digits n =
     (if n < 10 then [''0123456789'' ! n]
      else digits (n div 10) @ [''0123456789'' ! (n mod 10)])"

fun strftime_B_Y :: "cell \<Rightarrow> string option" where
  "strftime_B_Y (Stamp y m d) =
     (if 1 \<le> m \<and> m \<le> 12 \<and> 0 \<le> y then Some (month_names ! nat (m - 1) @ '' '' @ digits (nat y))
      else None)"
| "strftime_B_Y _ = None"


text \<open>
  The idiom \<open>_fx_to_usd(df[_is_x_labels(_label_series(df))], fx)\<close>: the rows of one
  category, converted.
\<close>

definition category_rows :: "lib \<Rightarrow> frame \<Rightarrow> frame \<Rightarrow> (lib \<Rightarrow> cell list \<Rightarrow> bool list) \<Rightarrow> error + frame" where
  "category_rows L df fxt is_labels =
     fx_to_usd L (select_mask (is_labels L (label_series L df)) df) fxt ''amount''"

text \<open>\<open>fillna(0.0)\<close> on a number.\<close>

definition fill0 :: "fl \<Rightarrow> fl" where
  "fill0 x = (if isnan x then Fin 0 else x)"

text \<open>\<open>Series.unique()\<close>: the values in order of first appearance, the missing value once.\<close>

definition unique :: "'a list \<Rightarrow> 'a list" where
  "unique xs = rev (remdups (rev xs))"

definition unique_periods :: "frame \<Rightarrow> cell list" where
  "unique_periods df = unique (map (\<lambda>c. if isna c then Null else c) (column df ''period''))"

text \<open>
  \<open>sorted(...)\<close> on periods: ascending by date. Python compares a missing period (NaT) as
  unordered with everything, so where it lands depends on the order of the input; the
  model puts it first. \<open>sort_values("period")\<close> is pandas' own sort: ascending and stable
  here, the rows with a missing period last.
\<close>

definition py_sorted :: "cell list \<Rightarrow> cell list" where
  "py_sorted ps = sort_key stamp_of ps"

definition sort_values_period :: "('a \<Rightarrow> cell) \<Rightarrow> 'a list \<Rightarrow> 'a list" where
  "sort_values_period key xs =
     sort_key (\<lambda>x. stamp_of (key x)) (filter (\<lambda>x. stamp_of (key x) \<noteq> None) xs) @
     filter (\<lambda>x. stamp_of (key x) = None) xs"

text \<open>\<open>tail(n)\<close> and \<open>[-n:]\<close> for a natural number \<open>n\<close>.\<close>

definition df_tail :: "nat \<Rightarrow> 'a list \<Rightarrow> 'a list" where
  "df_tail n xs = drop (length xs - n) xs"

text \<open>\<open>ebitda_proxy\<close>: one row per period of the actuals.\<close>

record ebitda_row =
  e_period :: cell
  e_revenue_usd :: fl
  e_cogs_usd :: fl
  e_opex_usd :: fl
  e_ebitda_proxy_usd :: fl

definition ebitda_entry :: "frame \<Rightarrow> frame \<Rightarrow> frame \<Rightarrow> cell \<Rightarrow> ebitda_row" where
  "ebitda_entry rev_df cogs_df opex_df p =
     (let rv = fill0 (period_sum rev_df p); cg = fill0 (period_sum cogs_df p);
          ox = fill0 (period_sum opex_df p)
      in \<lparr>e_period = p, e_revenue_usd = rv, e_cogs_usd = cg, e_opex_usd = ox,
          e_ebitda_proxy_usd = fsub (fsub rv cg) ox\<rparr>)"

definition ebitda_proxy :: "lib \<Rightarrow> data \<Rightarrow> error + ebitda_row list" where
  "ebitda_proxy L d =
     (case category_rows L (actuals d) (fx d) is_revenue_labels of
        Inl e \<Rightarrow> Inl e
      | Inr rev_df \<Rightarrow>
         (case category_rows L (actuals d) (fx d) is_cogs_labels of
            Inl e \<Rightarrow> Inl e
          | Inr cogs_df \<Rightarrow>
             (case category_rows L (actuals d) (fx d) is_opex_labels of
                Inl e \<Rightarrow> Inl e
              | Inr opex_df \<Rightarrow>
                  Inr (sort_values_period e_period
                         (map (ebitda_entry rev_df cogs_df opex_df)
                            (py_sorted (unique_periods (actuals d))))))))"

text \<open>
  \<open>cash_runway_months\<close>. The last lines of the function, from the average burn and the
  cash balance to the runway, are \<open>runway_of\<close>.
\<close>

definition runway_of :: "fl \<Rightarrow> fl \<Rightarrow> fl" where
  "runway_of cash_usd avg_burn =
     (if \<not> isfinite avg_burn \<or> fle avg_burn (Fin 0) then PInf else fdiv cash_usd avg_burn)"

definition average_burn :: "ebitda_row list \<Rightarrow> fl" where
  "average_burn e =
     (let last3 = df_tail 3 e
      in if last3 \<noteq> [] then fmean (map (\<lambda>r. fneg (e_ebitda_proxy_usd r)) last3) else NaN)"

definition latest_cash_usd :: "frame \<Rightarrow> fl" where
  "latest_cash_usd cash_df =
     fsum (map (\<lambda>r. num_of (cell_of r ''amount_usd''))
             (df_tail 1 (sort_values_period (\<lambda>r. cell_of r ''period'') (rows cash_df))))"

definition cash_runway_months :: "lib \<Rightarrow> data \<Rightarrow> error + (fl \<times> fl)" where
  "cash_runway_months L d =
     (case ebitda_proxy L d of
        Inl e \<Rightarrow> Inl e
      | Inr e \<Rightarrow>
         (case fx_to_usd L (cash d) (fx d) ''amount'' of
            Inl err \<Rightarrow> Inl err
          | Inr cash_df \<Rightarrow>
              Inr (latest_cash_usd cash_df, runway_of (latest_cash_usd cash_df) (average_burn e))))"



text \<open>\<open>((new - old) / old * 100) if old != 0 else 0\<close>; NaN is different from 0.\<close>

definition change_pct :: "fl \<Rightarrow> fl \<Rightarrow> fl" where
  "change_pct new old =
     (if \<not> feq old (Fin 0) then fmul (fdiv (fsub new old) old) (Fin 100) else Fin 0)"



text \<open>Sequencing of computations that may raise: the first exception wins.\<close>

definition bind_err :: "error + 'a \<Rightarrow> ('a \<Rightarrow> error + 'b) \<Rightarrow> error + 'b" where
  "bind_err x f = (case x of Inl e \<Rightarrow> Inl e | Inr a \<Rightarrow> f a)"

fun sequence_err :: "(error + 'a) list \<Rightarrow> error + 'a list" where
  "sequence_err [] = Inr []"
| "sequence_err (x # xs) = bind_err x (\<lambda>a. bind_err (sequence_err xs) (\<lambda>as. Inr (a # as)))"

text \<open>
  The keys of \<open>groupby("period")\<close>: the periods that are not missing, ascending.
\<close>

definition group_keys :: "frame \<Rightarrow> cell list" where
  "group_keys df = sort_key stamp_of (unique (filter (\<lambda>c. \<not> isna c) (column df ''period'')))"

text \<open>
  \<open>gross_margin_trend\<close>: the outer join of the revenue and COGS sums per period, missing
  sums filled with 0, and the gross margin computed column-wise: null where the revenue
  is 0. \<open>tail(n)\<close> for a negative \<open>n\<close> drops the first \<open>-n\<close> rows.
\<close>

record gm_row =
  g_period :: cell
  g_revenue_usd :: fl
  g_cogs_usd :: fl
  g_gm_pct :: fl

definition gm_entry :: "frame \<Rightarrow> frame \<Rightarrow> cell \<Rightarrow> gm_row" where
  "gm_entry rev_df cogs_df p =
     (let rv = fill0 (period_sum rev_df p); cg = fill0 (period_sum cogs_df p)
      in \<lparr>g_period = p, g_revenue_usd = rv, g_cogs_usd = cg,
          g_gm_pct = (if feq rv (Fin 0) then NaN else fmul (fdiv (fsub rv cg) rv) (Fin 100))\<rparr>)"

definition tail_int :: "int \<Rightarrow> 'a list \<Rightarrow> 'a list" where
  "tail_int n xs = (if 0 \<le> n then df_tail (nat n) xs else drop (nat (- n)) xs)"

definition gross_margin_trend :: "lib \<Rightarrow> data \<Rightarrow> int \<Rightarrow> error + gm_row list" where
  "gross_margin_trend L d last_n_months =
     bind_err (category_rows L (actuals d) (fx d) is_revenue_labels) (\<lambda>rev_df.
     bind_err (category_rows L (actuals d) (fx d) is_cogs_labels) (\<lambda>cogs_df.
       Inr (tail_int last_n_months
              (map (gm_entry rev_df cogs_df)
                 (sort_key stamp_of (unique (group_keys rev_df @ group_keys cogs_df)))))))"

text \<open>
  \<open>budget_variance_analysis\<close>: five rows, each with
  \<open>variance_pct = ((actual - budget) / budget * 100) if budget != 0 else 0\<close>. The period
  label is written last, so a missing period raises after the conversions.
\<close>

record variance_row =
  v_category :: string
  v_actual :: fl
  v_budget :: fl
  v_variance :: fl
  v_variance_pct :: fl
  v_period :: string

definition variance_entry :: "string \<Rightarrow> fl \<Rightarrow> fl \<Rightarrow> string \<Rightarrow> variance_row" where
  "variance_entry category a b label =
     \<lparr>v_category = category, v_actual = a, v_budget = b, v_variance = fsub a b,
      v_variance_pct = change_pct a b, v_period = label\<rparr>"

definition budget_variance_analysis :: "lib \<Rightarrow> data \<Rightarrow> string option \<Rightarrow> error + variance_row list" where
  "budget_variance_analysis L d month_text =
     (case requested_period L d month_text of
        None \<Rightarrow> Inl ValueError
      | Some p \<Rightarrow>
         bind_err (category_rows L (actuals d) (fx d) is_revenue_labels) (\<lambda>actual_rev.
         bind_err (category_rows L (budget d) (fx d) is_revenue_labels) (\<lambda>budget_rev.
         bind_err (category_rows L (actuals d) (fx d) is_cogs_labels) (\<lambda>actual_cogs.
         bind_err (category_rows L (budget d) (fx d) is_cogs_labels) (\<lambda>budget_cogs.
         bind_err (category_rows L (actuals d) (fx d) is_opex_labels) (\<lambda>actual_opex.
         bind_err (category_rows L (budget d) (fx d) is_opex_labels) (\<lambda>budget_opex.
           (case strftime_B_Y p of
              None \<Rightarrow> Inl ValueError
            | Some label \<Rightarrow>
               (let a_rev = period_sum actual_rev p; b_rev = period_sum budget_rev p;
                    a_cogs = period_sum actual_cogs p; b_cogs = period_sum budget_cogs p;
                    a_opex = period_sum actual_opex p; b_opex = period_sum budget_opex p;
                    gross_profit_actual = fsub a_rev a_cogs;
                    gross_profit_budget = fsub b_rev b_cogs
                in Inr [variance_entry ''Revenue'' a_rev b_rev label,
                        variance_entry ''COGS'' a_cogs b_cogs label,
                        variance_entry ''Operating Expenses'' a_opex b_opex label,
                        variance_entry ''Gross Profit'' gross_profit_actual gross_profit_budget label,
                        variance_entry ''EBITDA'' (fsub gross_profit_actual a_opex)
                          (fsub gross_profit_budget b_opex) label])))))))))"

text \<open>
  \<open>yearly_comparison\<close>. The actuals get a \<open>year\<close> and a \<open>month\<close> column; the latest year
  is compared with the year before, month by month, over the revenue rows; a month
  without rows counts 0 and is not converted. The result is empty when the year before
  has no row at all.
\<close>

record yearly_row =
  y_month :: int
  y_month_name :: string
  y_revenue_current :: fl
  y_revenue_prev :: fl
  y_yoy_growth_pct :: fl

fun year_cell :: "cell \<Rightarrow> cell" where
  "year_cell (Stamp y m d) = Num (Fin (of_int y))"
| "year_cell _ = Num NaN"

fun month_cell :: "cell \<Rightarrow> cell" where
  "month_cell (Stamp y m d) = Num (Fin (of_int m))"
| "month_cell _ = Num NaN"

definition with_year_month :: "frame \<Rightarrow> frame" where
  "with_year_month df =
     set_column ''month'' Numeric (map month_cell (column df ''period''))
       (set_column ''year'' Numeric (map year_cell (column df ''period'')) df)"

text \<open>\<open>Series.max()\<close> of a numeric column: NaN is skipped, NaN if nothing is left.\<close>

definition num_max :: "fl list \<Rightarrow> fl" where
  "num_max xs =
     (case filter (\<lambda>x. \<not> isnan x) xs of
        [] \<Rightarrow> NaN
      | y # ys \<Rightarrow> fold (\<lambda>a b. if flt b a then a else b) ys y)"

definition month_revenue :: "lib \<Rightarrow> frame \<Rightarrow> frame \<Rightarrow> bool list \<Rightarrow> fl \<Rightarrow> int \<Rightarrow> error + fl" where
  "month_revenue L df fxt rev_mask yr m =
     (let month_data =
            select_mask
              (map (\<lambda>(r, is_rev). feq (num_of (cell_of r ''year'')) yr \<and>
                                  feq (num_of (cell_of r ''month'')) (Fin (of_int m)) \<and> is_rev)
                 (zip (rows df) rev_mask))
              df
      in if rows month_data = [] then Inr (Fin 0)
         else bind_err (fx_to_usd L month_data fxt ''amount'')
                (\<lambda>out. Inr (fsum (map (\<lambda>r. num_of (cell_of r ''amount_usd'')) (rows out)))))"

definition yearly_entry :: "int \<Rightarrow> fl \<Rightarrow> fl \<Rightarrow> yearly_row" where
  "yearly_entry m cur prev =
     \<lparr>y_month = m, y_month_name = month_names ! nat (m - 1), y_revenue_current = cur,
      y_revenue_prev = prev,
      y_yoy_growth_pct =
        (if flt (Fin 0) prev then fmul (fdiv (fsub cur prev) prev) (Fin 100) else Fin 0)\<rparr>"

definition yearly_comparison :: "lib \<Rightarrow> data \<Rightarrow> error + yearly_row list" where
  "yearly_comparison L d =
     (let df = with_year_month (actuals d);
          current_year = num_max (map num_of (column df ''year''));
          prev_year = fsub current_year (Fin 1);
          rev_mask = is_revenue_labels L (label_series L df)
      in if filter (\<lambda>r. feq (num_of (cell_of r ''year'')) prev_year) (rows df) = [] then Inr []
         else sequence_err
                (map (\<lambda>m. bind_err (month_revenue L df (fx d) rev_mask current_year m) (\<lambda>cur.
                           bind_err (month_revenue L df (fx d) rev_mask prev_year m) (\<lambda>prev.
                             Inr (yearly_entry m cur prev))))
                   [1 .. 12]))"

text \<open>
  \<open>pnl_statement\<close>. The opex lines come from \<open>groupby(account_col)\<close>: one line per
  label that is not missing, in ascending order of the label, with the sum of its rows.
  \<open>sum(opex_by_category.values())\<close> is Python's sum, which does not skip NaN.
\<close>

record pnl_row =
  p_line_item :: string
  p_amount :: fl
  p_type :: string
  p_period :: string

definition opex_by_category :: "lib \<Rightarrow> frame \<Rightarrow> (string \<times> fl) list" where
  "opex_by_category L opex_data =
     (if rows opex_data = [] then []
      else
       (let account_col =
              (if ''account'' \<in> set (col_names opex_data) then ''account''
               else if ''entity'' \<in> set (col_names opex_data) then ''entity''
               else hd (col_names opex_data));
            labelled = filter (\<lambda>r. \<not> isna (cell_of r account_col)) (rows opex_data)
        in map (\<lambda>k. (k, fsum (map (\<lambda>r. num_of (cell_of r ''amount_usd''))
                                (filter (\<lambda>r. cell_str L (cell_of r account_col) = k) labelled))))
             (sort (unique (map (\<lambda>r. cell_str L (cell_of r account_col)) labelled)))))"

definition pnl_line :: "string \<Rightarrow> fl \<Rightarrow> string \<Rightarrow> string \<Rightarrow> pnl_row" where
  "pnl_line item amount kind label =
     \<lparr>p_line_item = item, p_amount = amount, p_type = kind, p_period = label\<rparr>"

definition pnl_statement :: "lib \<Rightarrow> data \<Rightarrow> string option \<Rightarrow> error + pnl_row list" where
  "pnl_statement L d month_text =
     (case requested_period L d month_text of
        None \<Rightarrow> Inl ValueError
      | Some p \<Rightarrow>
         (let labels = label_series L (actuals d);
              in_period = map (\<lambda>r. cell_eq (cell_of r ''period'') p) (rows (actuals d));
              period_rows = (\<lambda>m. select_mask (map (\<lambda>(a, b). a \<and> b) (zip in_period m)) (actuals d))
          in
           bind_err (fx_to_usd L (period_rows (is_revenue_labels L labels)) (fx d) ''amount'') (\<lambda>rev_df.
           bind_err (fx_to_usd L (period_rows (is_cogs_labels L labels)) (fx d) ''amount'') (\<lambda>cogs_df.
           bind_err (fx_to_usd L (period_rows (is_opex_labels L labels)) (fx d) ''amount'') (\<lambda>opex_data.
             (case strftime_B_Y p of
                None \<Rightarrow> Inl ValueError
              | Some label \<Rightarrow>
                 (let revenue = fsum (map (\<lambda>r. num_of (cell_of r ''amount_usd'')) (rows rev_df));
                      cogs = fsum (map (\<lambda>r. num_of (cell_of r ''amount_usd'')) (rows cogs_df));
                      gross_profit = fsub revenue cogs;
                      gross_margin_pct =
                        (if flt (Fin 0) revenue then fmul (fdiv gross_profit revenue) (Fin 100)
                         else Fin 0);
                      by_category = opex_by_category L opex_data;
                      total_opex = foldl fadd (Fin 0) (map snd by_category);
                      ebitda = fsub gross_profit total_opex
                  in Inr ([pnl_line ''Revenue'' revenue ''revenue'' label,
                           pnl_line ''Cost of Goods Sold (COGS)'' (fneg cogs) ''cogs'' label,
                           pnl_line ''Gross Profit'' gross_profit ''gross_profit'' label,
                           pnl_line ''Gross Margin %'' gross_margin_pct ''percentage'' label] @
                          map (\<lambda>(category, amount). pnl_line category (fneg amount) ''opex'' label)
                            by_category @
                          [pnl_line ''Total Operating Expenses'' (fneg total_opex) ''total_opex'' label,
                           pnl_line ''EBITDA'' ebitda ''ebitda'' label]))))))))"

text \<open>
  \<open>pct_change()\<close> along a column: the value over the value before it, minus 1; the first
  has none before it. (pandas before 3.0 first replaces a NaN value by the last value
  that is not NaN; the model does not.)
\<close>

fun pct_change :: "fl list \<Rightarrow> fl list" where
  "pct_change [] = []"
| "pct_change (x # xs) =
     NaN # map (\<lambda>(prev, cur). fsub (fdiv cur prev) (Fin 1)) (zip (x # xs) xs)"

text \<open>
  \<open>quarterly_summary\<close>. The actuals get a \<open>quarter\<close> column (\<open>2025Q2\<close>); each quarter, in
  ascending order, gives one row over the rows of the quarter. The growth columns exist
  when there is more than one quarter; where they do not exist the model holds NaN.
\<close>

record quarter_row =
  q_quarter :: string
  q_revenue :: fl
  q_cogs :: fl
  q_opex :: fl
  q_gross_profit :: fl
  q_gross_margin_pct :: fl
  q_ebitda :: fl
  q_ebitda_margin_pct :: fl
  q_revenue_qoq_growth :: fl
  q_ebitda_qoq_growth :: fl

fun quarter_cell :: "cell \<Rightarrow> cell" where
  "quarter_cell (Stamp y m d) = Str (digits (nat y) @ ''Q'' @ digits (nat ((m - 1) div 3 + 1)))"
| "quarter_cell _ = Null"

fun str_of :: "cell \<Rightarrow> string option" where
  "str_of (Str s) = Some s"
| "str_of _ = None"

definition quarter_entry :: "cell \<Rightarrow> fl \<Rightarrow> fl \<Rightarrow> fl \<Rightarrow> quarter_row" where
  "quarter_entry quarter revenue cogs opex =
     \<lparr>q_quarter = (case quarter of Str s \<Rightarrow> s | _ \<Rightarrow> ''NaT''),
      q_revenue = revenue, q_cogs = cogs, q_opex = opex,
      q_gross_profit = fsub revenue cogs,
      q_gross_margin_pct =
        (if flt (Fin 0) revenue then fmul (fdiv (fsub revenue cogs) revenue) (Fin 100) else Fin 0),
      q_ebitda = fsub (fsub revenue cogs) opex,
      q_ebitda_margin_pct =
        (if flt (Fin 0) revenue then fmul (fdiv (fsub (fsub revenue cogs) opex) revenue) (Fin 100)
         else Fin 0),
      q_revenue_qoq_growth = NaN, q_ebitda_qoq_growth = NaN\<rparr>"

definition quarter_sum :: "lib \<Rightarrow> frame \<Rightarrow> frame \<Rightarrow> bool list \<Rightarrow> cell \<Rightarrow> error + fl" where
  "quarter_sum L df fxt m quarter =
     bind_err
       (fx_to_usd L
          (select_mask
             (map (\<lambda>(r, b). cell_eq (cell_of r ''quarter'') quarter \<and> b) (zip (rows df) m)) df)
          fxt ''amount'')
       (\<lambda>out. Inr (fsum (map (\<lambda>r. num_of (cell_of r ''amount_usd'')) (rows out))))"

definition with_growth :: "quarter_row list \<Rightarrow> quarter_row list" where
  "with_growth qs =
     (if 1 < length qs
      then map (\<lambda>(q, rg, eg). q\<lparr>q_revenue_qoq_growth := fmul rg (Fin 100),
                                  q_ebitda_qoq_growth := fmul eg (Fin 100)\<rparr>)
             (zip qs (zip (pct_change (map q_revenue qs)) (pct_change (map q_ebitda qs))))
      else qs)"

definition quarterly_summary :: "lib \<Rightarrow> data \<Rightarrow> error + quarter_row list" where
  "quarterly_summary L d =
     (let df = set_column ''quarter'' Object (map quarter_cell (column (actuals d) ''period''))
                 (actuals d);
          labels = label_series L df
      in bind_err
           (sequence_err
              (map (\<lambda>quarter.
                      bind_err (quarter_sum L df (fx d) (is_revenue_labels L labels) quarter) (\<lambda>revenue.
                      bind_err (quarter_sum L df (fx d) (is_cogs_labels L labels) quarter) (\<lambda>cogs.
                      bind_err (quarter_sum L df (fx d) (is_opex_labels L labels) quarter) (\<lambda>opex.
                        Inr (quarter_entry quarter revenue cogs opex)))))
                 (sort_key str_of (unique (column df ''quarter'')))))
           (\<lambda>qs. Inr (with_growth qs)))"

text \<open>
  \<open>revenue_growth_analysis\<close>, computed column-wise: the monthly revenue (a NaN sum stays
  NaN), the revenue of the row before, the month-over-month growth, the growth against
  the last earlier row of the same calendar month, and the means over the last three
  rows, which skip NaN and need one value. (What pandas' sliding sums do with infinite
  values is not modelled.)
\<close>

record growth_row =
  gr_period :: cell
  gr_amount_usd :: fl
  gr_prev_month_revenue :: fl
  gr_mom_growth_pct :: fl
  gr_year :: cell
  gr_month :: cell
  gr_yoy_growth_pct :: fl
  gr_revenue_3m_avg :: fl
  gr_growth_3m_avg :: fl

text \<open>\<open>shift(1)\<close>.\<close>

definition shift1 :: "fl list \<Rightarrow> fl list" where
  "shift1 xs = (if xs = [] then [] else NaN # butlast xs)"

text \<open>\<open>rolling(window=3, min_periods=1).mean()\<close>.\<close>

definition rolling3_mean :: "fl list \<Rightarrow> fl list" where
  "rolling3_mean xs = map (\<lambda>i. fmean (df_tail 3 (take (Suc i) xs))) [0 ..< length xs]"

text \<open>
  \<open>groupby('month')['amount_usd'].pct_change(periods=1)\<close>: for each row, against the last
  earlier row with the same month.
\<close>

definition pct_change_by_month :: "(cell \<times> fl) list \<Rightarrow> fl list" where
  "pct_change_by_month xs =
     map (\<lambda>i. case filter (\<lambda>(m, v). cell_eq m (fst (xs ! i))) (take i xs) of
                 [] \<Rightarrow> NaN
               | ys \<Rightarrow> fsub (fdiv (snd (xs ! i)) (snd (last ys))) (Fin 1))
       [0 ..< length xs]"

definition growth_rows :: "cell list \<Rightarrow> fl list \<Rightarrow> growth_row list" where
  "growth_rows ps amounts =
     (let prevs = shift1 amounts;
          moms = map (\<lambda>(a, pv). fmul (fdiv (fsub a pv) pv) (Fin 100)) (zip amounts prevs);
          yoys = map (\<lambda>x. fmul x (Fin 100)) (pct_change_by_month (zip (map month_cell ps) amounts));
          avg_rev = rolling3_mean amounts;
          avg_growth = rolling3_mean moms
      in map (\<lambda>i. \<lparr>gr_period = ps ! i, gr_amount_usd = amounts ! i,
                     gr_prev_month_revenue = prevs ! i, gr_mom_growth_pct = moms ! i,
                     gr_year = year_cell (ps ! i), gr_month = month_cell (ps ! i),
                     gr_yoy_growth_pct = yoys ! i, gr_revenue_3m_avg = avg_rev ! i,
                     gr_growth_3m_avg = avg_growth ! i\<rparr>)
           [0 ..< length ps])"

definition revenue_growth_analysis :: "lib \<Rightarrow> data \<Rightarrow> error + growth_row list" where
  "revenue_growth_analysis L d =
     bind_err (category_rows L (actuals d) (fx d) is_revenue_labels) (\<lambda>rev_data.
       Inr (df_tail 12
              (growth_rows (group_keys rev_data)
                 (map (period_sum rev_data) (group_keys rev_data)))))"


section \<open>Sample inputs\<close>

text \<open>
  A library instance for the examples: it parses two date strings and the month text
  \<open>June 2025\<close>, and nothing else.
\<close>

definition sample_lib :: lib where
  "sample_lib =
     \<lparr>parse_date = (\<lambda>s. if s = ''2025-06-15'' then Some (2025, 6, 15)
                        else if s = ''2024-01-31'' then Some (2024, 1, 31) else None),
      date_of_num = (\<lambda>x. None),
      num_of_str = (\<lambda>s. NaN),
      num_of_stamp = (\<lambda>y m d. NaN),
      str_of_num = (\<lambda>x. ''0''),
      str_of_stamp = (\<lambda>y m d. ''x''),
      int_of_cell = (\<lambda>c. None),
      py_int = (\<lambda>s. None),
      dtparse = (\<lambda>s. if s = ''June 2025'' then Some (2025, 6, 4) else None)\<rparr>"

text \<open>
  A table whose \<open>Period\<close> column parses in one row of three, beside a \<open>date\<close> column
  that parses in every row.
\<close>

definition sparse_period_table :: frame where
  "sparse_period_table =
     \<lparr>columns = [(''Period'', Object), (''date'', Object)],
      rows = [[''Period'' \<mapsto> Str ''2025-06-15'', ''date'' \<mapsto> Str ''2024-01-31''],
              [''Period'' \<mapsto> Str ''n/a'', ''date'' \<mapsto> Str ''2024-01-31''],
              [''Period'' \<mapsto> Null, ''date'' \<mapsto> Str ''2024-01-31'']]\<rparr>"

text \<open>Loaded tables with the four canonical columns, and an FX table with one EUR rate.\<close>

definition canonical_columns :: "(string \<times> dtype) list" where
  "canonical_columns =
     [(''period'', Datetime), (''account'', Object), (''amount'', Numeric), (''currency'', Object)]"

definition sample_fx :: frame where
  "sample_fx =
     \<lparr>columns = [(''period'', Datetime), (''currency'', Object), (''rate_to_usd'', Numeric)],
      rows = [[''period'' \<mapsto> Stamp 2025 6 1, ''currency'' \<mapsto> Str ''EUR'',
               ''rate_to_usd'' \<mapsto> Num (Fin (11 / 10))]]\<rparr>"

definition two_currency_table :: frame where
  "two_currency_table =
     \<lparr>columns = canonical_columns,
      rows = [[''period'' \<mapsto> Stamp 2025 6 1, ''account'' \<mapsto> Str ''Revenue'',
               ''amount'' \<mapsto> Num (Fin 1000), ''currency'' \<mapsto> Str ''EUR''],
              [''period'' \<mapsto> Stamp 2025 6 1, ''account'' \<mapsto> Str ''Revenue'',
               ''amount'' \<mapsto> Num (Fin 500), ''currency'' \<mapsto> Str ''GBP'']]\<rparr>"


text \<open>What a test of the converter reads off each output row.\<close>

definition converted_view :: "lib \<Rightarrow> error + frame \<Rightarrow> error + (cell \<times> cell \<times> cell \<times> cell \<times> bool) list" where
  "converted_view L res =
     map_sum id
       (\<lambda>out. map (\<lambda>r. (cell_of r ''currency'', cell_of r ''amount'', cell_of r ''rate_to_usd'',
                          cell_of r ''amount_usd'',
                          within_tolerance (num_of (cell_of r ''amount_usd''))
                            (fmul (amount_value L (cell_of r ''amount''))
                               (num_of (cell_of r ''rate_to_usd'')))))
                 (rows out))
       res"



definition june_budget :: frame where
  "june_budget =
     \<lparr>columns = canonical_columns,
      rows = [[''period'' \<mapsto> Stamp 2025 6 1, ''account'' \<mapsto> Str ''Revenue'',
               ''amount'' \<mapsto> Num (Fin 90000), ''currency'' \<mapsto> Str ''USD'']]\<rparr>"

definition june_cash :: frame where
  "june_cash =
     \<lparr>columns = [(''period'', Datetime), (''amount'', Numeric)],
      rows = [[''period'' \<mapsto> Stamp 2025 6 1, ''amount'' \<mapsto> Num (Fin 50000)]]\<rparr>"


text \<open>
  Actuals of two months with revenue, COGS and opex (a burn of 300 a month), and
  actuals of one month with an opex amount that is infinite.
\<close>

definition two_month_actuals :: frame where
  "two_month_actuals =
     \<lparr>columns = canonical_columns,
      rows = [[''period'' \<mapsto> Stamp 2025 5 1, ''account'' \<mapsto> Str ''Revenue'',
               ''amount'' \<mapsto> Num (Fin 1000), ''currency'' \<mapsto> Str ''USD''],
              [''period'' \<mapsto> Stamp 2025 5 1, ''account'' \<mapsto> Str ''COGS'',
               ''amount'' \<mapsto> Num (Fin 400), ''currency'' \<mapsto> Str ''USD''],
              [''period'' \<mapsto> Stamp 2025 5 1, ''account'' \<mapsto> Str ''Opex:Marketing'',
               ''amount'' \<mapsto> Num (Fin 900), ''currency'' \<mapsto> Str ''USD''],
              [''period'' \<mapsto> Stamp 2025 6 1, ''account'' \<mapsto> Str ''Revenue'',
               ''amount'' \<mapsto> Num (Fin 1200), ''currency'' \<mapsto> Str ''USD''],
              [''period'' \<mapsto> Stamp 2025 6 1, ''account'' \<mapsto> Str ''COGS'',
               ''amount'' \<mapsto> Num (Fin 500), ''currency'' \<mapsto> Str ''USD''],
              [''period'' \<mapsto> Stamp 2025 6 1, ''account'' \<mapsto> Str ''Opex:Marketing'',
               ''amount'' \<mapsto> Num (Fin 1000), ''currency'' \<mapsto> Str ''USD'']]\<rparr>"

definition two_month_data :: data where
  "two_month_data =
     \<lparr>actuals = two_month_actuals, budget = june_budget, fx = sample_fx, cash = june_cash\<rparr>"

definition infinite_opex_actuals :: frame where
  "infinite_opex_actuals =
     \<lparr>columns = canonical_columns,
      rows = [[''period'' \<mapsto> Stamp 2025 6 1, ''account'' \<mapsto> Str ''Revenue'',
               ''amount'' \<mapsto> Num (Fin 1000), ''currency'' \<mapsto> Str ''USD''],
              [''period'' \<mapsto> Stamp 2025 6 1, ''account'' \<mapsto> Str ''COGS'',
               ''amount'' \<mapsto> Num (Fin 400), ''currency'' \<mapsto> Str ''USD''],
              [''period'' \<mapsto> Stamp 2025 6 1, ''account'' \<mapsto> Str ''Opex:Cloud'',
               ''amount'' \<mapsto> Num PInf, ''currency'' \<mapsto> Str ''USD'']]\<rparr>"

definition infinite_opex_data :: data where
  "infinite_opex_data =
     \<lparr>actuals = infinite_opex_actuals, budget = june_budget, fx = sample_fx, cash = june_cash\<rparr>"

(*DEFS*)

section \<open>Properties of the label tests\<close>

lemma revenue_matches_no_other_pattern:
  "lower l = ''revenue'' \<Longrightarrow>
     \<not> contains (lower l) ''cost of goods'' \<and> \<not> startswith (lower l) ''opex'' \<and>
     \<not> contains (lower l) ''operating expense''"
  by simp

lemma cogs_matches_no_other_pattern:
  "lower l = ''cogs'' \<Longrightarrow>
     \<not> contains_word (lower l) ''sales'' \<and> \<not> startswith (lower l) ''opex'' \<and>
     \<not> contains (lower l) ''operating expense''"
  by (simp add: contains_word_def is_word_char_def)

text \<open>
  Claim C6, as stated, fails: the label \<open>Opex Sales\<close> starts with \<open>opex\<close> and holds
  the whole word \<open>sales\<close>, so it is both revenue and opex.
\<close>

theorem category_overlap_counterexample:
  "\<not> at_most_one (is_revenue_label ''Opex Sales'') (is_cogs_label ''Opex Sales'')
       (is_opex_label ''Opex Sales'')"
  by code_simp

text \<open>
  Claim C6, amended: the three tests are independent, and two of them hold of one label
  only when the label matches the containment patterns of both. For every label in which
  no two of the patterns (the whole word \<open>sales\<close>; \<open>cost of goods\<close>; the prefix
  \<open>opex\<close> or \<open>operating expense\<close>) occur together, at most one of is-revenue, is-COGS
  and is-opex is true. In particular the exact labels \<open>revenue\<close> and \<open>cogs\<close> match no
  pattern of another category.
\<close>

theorem category_exclusive_without_pattern_overlap:
  assumes "\<not> (contains_word (lower l) ''sales'' \<and> contains (lower l) ''cost of goods'')"
    and "\<not> (contains_word (lower l) ''sales'' \<and>
            (startswith (lower l) ''opex'' \<or> contains (lower l) ''operating expense''))"
    and "\<not> (contains (lower l) ''cost of goods'' \<and>
            (startswith (lower l) ''opex'' \<or> contains (lower l) ''operating expense''))"
  shows "at_most_one (is_revenue_label l) (is_cogs_label l) (is_opex_label l)"
  using assms revenue_matches_no_other_pattern [of l] cogs_matches_no_other_pattern [of l]
  unfolding at_most_one_def is_revenue_label_def is_cogs_label_def is_opex_label_def Let_def
  by auto

text \<open>
  The label the specification names as a possible violation, \<open>Sales Opex Adjustment\<close>,
  satisfies the hypotheses: it is revenue and nothing else, since it does not start with
  \<open>opex\<close>.
\<close>

theorem category_exclusive_witness:
  "\<not> (contains_word (lower ''Sales Opex Adjustment'') ''sales'' \<and>
        contains (lower ''Sales Opex Adjustment'') ''cost of goods'') \<and>
   is_revenue_label ''Sales Opex Adjustment'' \<and>
   at_most_one (is_revenue_label ''Sales Opex Adjustment'')
     (is_cogs_label ''Sales Opex Adjustment'') (is_opex_label ''Sales Opex Adjustment'')"
proof -
  have a: "\<not> (contains_word (lower ''Sales Opex Adjustment'') ''sales'' \<and>
        contains (lower ''Sales Opex Adjustment'') ''cost of goods'')"
    by code_simp
  have b: "\<not> (contains_word (lower ''Sales Opex Adjustment'') ''sales'' \<and>
            (startswith (lower ''Sales Opex Adjustment'') ''opex'' \<or>
             contains (lower ''Sales Opex Adjustment'') ''operating expense''))"
    by code_simp
  have c: "\<not> (contains (lower ''Sales Opex Adjustment'') ''cost of goods'' \<and>
            (startswith (lower ''Sales Opex Adjustment'') ''opex'' \<or>
             contains (lower ''Sales Opex Adjustment'') ''operating expense''))"
    by code_simp
  have r: "is_revenue_label ''Sales Opex Adjustment''"
    by code_simp
  show ?thesis
    using a r category_exclusive_without_pattern_overlap [OF a b c] by blast
qed

section \<open>Properties of the period normalizer\<close>

lemma those_list_length: "those_list xs = Some ys \<Longrightarrow> length ys = length xs"
  by (induction xs arbitrary: ys rule: those_list.induct) auto














section \<open>Properties of the currency converter\<close>

lemma those_list_nth:
  "those_list xs = Some ys \<Longrightarrow> i < length xs \<Longrightarrow> xs ! i = Some (ys ! i)"
proof (induction xs arbitrary: ys i rule: those_list.induct)
  case 1
  then show ?case by simp
next
  case (2 xs)
  then show ?case by simp
next
  case (3 x xs)
  then show ?case by (cases i) auto
qed

lemma times_rate_SomeD:
  "times_rate a c = Some v \<Longrightarrow> \<exists>rate. c = Num rate \<and> v = Num (fmul a rate)"
  by (cases c) auto

lemma fx_to_usd_InrD:
  assumes "fx_to_usd L df fxt amount_col = Inr out"
  shows "\<exists>merged ac vs. fx_merged L df fxt = Inr merged \<and>
           resolve_amount amount_col merged = Some ac \<and>
           those_list (map (\<lambda>r. times_rate (amount_value L (cell_of r ac)) (cell_of r ''rate_to_usd''))
                        (rows merged)) = Some vs \<and>
           out = set_column ''amount_usd'' Numeric vs merged"
  using assms unfolding fx_to_usd_def
  by (auto split: sum.splits option.splits)

lemma fx_merged_InrD:
  assumes "fx_merged L df fxt = Inr merged"
  shows "\<exists>rate_col df2 fx2. rate_column fxt = Some rate_col \<and>
           ensure_period_columns L (default_currency df) = Inr df2 \<and>
           ensure_period_columns L fxt = Inr fx2 \<and>
           ''currency'' \<in> set (col_names fx2) \<and> ''rate_to_usd'' \<notin> set (col_names df2) \<and>
           merged = fill_rate (merge_left rate_col df2 fx2)"
  using assms unfolding fx_merged_def
  by (auto split: sum.splits option.splits if_splits)

lemma rows_set_column:
  "length vs = length (rows df) \<Longrightarrow>
     rows (set_column c t vs df) = map (\<lambda>(r, v). r(c \<mapsto> v)) (zip (rows df) vs)"
  by (simp add: set_column_def)

lemma length_rows_set_column:
  "length vs = length (rows df) \<Longrightarrow> length (rows (set_column c t vs df)) = length (rows df)"
  by (simp add: set_column_def)

lemma nth_rows_set_column:
  "length vs = length (rows df) \<Longrightarrow> i < length (rows df) \<Longrightarrow>
     rows (set_column c t vs df) ! i = (rows df ! i)(c \<mapsto> vs ! i)"
  by (simp add: set_column_def)

lemma converted_rows:
  assumes "fx_to_usd L df fxt amount_col = Inr out"
  shows "\<exists>merged ac. fx_merged L df fxt = Inr merged \<and> resolve_amount amount_col merged = Some ac \<and>
     length (rows out) = length (rows merged) \<and>
     (\<forall>i < length (rows merged). \<exists>rate.
         cell_of (rows merged ! i) ''rate_to_usd'' = Num rate \<and>
         rows out ! i = (rows merged ! i)(''amount_usd'' \<mapsto>
            Num (fmul (amount_value L (cell_of (rows merged ! i) ac)) rate)))"
proof -
  from fx_to_usd_InrD [OF assms] obtain merged ac vs where
    m: "fx_merged L df fxt = Inr merged" and ac: "resolve_amount amount_col merged = Some ac" and
    vs: "those_list (map (\<lambda>r. times_rate (amount_value L (cell_of r ac)) (cell_of r ''rate_to_usd''))
                        (rows merged)) = Some vs" and
    out: "out = set_column ''amount_usd'' Numeric vs merged"
    by blast
  have len: "length vs = length (rows merged)"
    using those_list_length [OF vs] by simp
  have "\<exists>rate. cell_of (rows merged ! i) ''rate_to_usd'' = Num rate \<and>
         rows out ! i = (rows merged ! i)(''amount_usd'' \<mapsto>
            Num (fmul (amount_value L (cell_of (rows merged ! i) ac)) rate))"
    if i: "i < length (rows merged)" for i
  proof -
    have "times_rate (amount_value L (cell_of (rows merged ! i) ac))
            (cell_of (rows merged ! i) ''rate_to_usd'') = Some (vs ! i)"
      using those_list_nth [OF vs, of i] i by simp
    from times_rate_SomeD [OF this] obtain rate where
      "cell_of (rows merged ! i) ''rate_to_usd'' = Num rate"
      "vs ! i = Num (fmul (amount_value L (cell_of (rows merged ! i) ac)) rate)"
      by blast
    then show ?thesis
      using nth_rows_set_column [OF len i, of "''amount_usd''" Numeric] out by simp
  qed
  then show ?thesis
    using m ac out length_rows_set_column [OF len] by blast
qed

section \<open>The fast path of the period normalizer\<close>

lemma fast_path_result:
  assumes "''period'' \<in> set (map lower (col_names df))"
    and "\<exists>x \<in> set (column_lower df ''period''). to_datetime L x \<noteq> None"
  shows "ensure_period_columns L df =
           Inr (set_column ''period'' Datetime
                  (map (\<lambda>x. month_start (to_datetime L x)) (column_lower df ''period'')) df)"
  using assms unfolding ensure_period_columns_def period_fast_path_def Let_def
  by (simp add: list_ex_iff comp_def)

text \<open>
  Claim C8: if the table has a column whose lower-cased name is \<open>period\<close> and at least
  one of its values parses as a date, the normalizer returns the table with \<open>period\<close>
  set to the whole column parsed (a value that does not parse becomes null) and truncated
  to the first of the month. No share of parsed values is asked for, and the result does
  not depend on any other column or strategy.
\<close>

theorem period_column_fast_path:
  assumes "''period'' \<in> set (map lower (col_names df))"
    and "\<exists>x \<in> set (column_lower df ''period''). to_datetime L x \<noteq> None"
  shows "ensure_period_columns L df =
           Inr (set_column ''period'' Datetime
                  (map (\<lambda>x. month_start (to_datetime L x)) (column_lower df ''period'')) df)"
  using assms by (rule fast_path_result)

text \<open>
  On the sample table one value of three parses, which the 60% rule of the other
  strategies rejects, and the \<open>date\<close> column would have satisfied the first of them; the
  result is the \<open>Period\<close> column all the same.
\<close>

theorem period_column_fast_path_witness:
  "''period'' \<in> set (map lower (col_names sparse_period_table)) \<and>
   try_parse_series sample_lib (column_lower sparse_period_table ''period'') (6 / 10) = None \<and>
   period_by_date_name sample_lib sparse_period_table \<noteq> None \<and>
   map_sum id (\<lambda>r. column r ''period'') (ensure_period_columns sample_lib sparse_period_table) =
     Inr [Stamp 2025 6 1, Null, Null]"
proof -
  have h1: "''period'' \<in> set (map lower (col_names sparse_period_table))"
    by code_simp
  have h2: "\<exists>x \<in> set (column_lower sparse_period_table ''period''). to_datetime sample_lib x \<noteq> None"
    by code_simp
  have h3: "try_parse_series sample_lib (column_lower sparse_period_table ''period'') (6 / 10) = None"
    by code_simp
  have h4: "period_by_date_name sample_lib sparse_period_table \<noteq> None"
    by code_simp
  have h5: "column (set_column ''period'' Datetime
                  (map (\<lambda>x. month_start (to_datetime sample_lib x))
                     (column_lower sparse_period_table ''period'')) sparse_period_table) ''period'' =
            [Stamp 2025 6 1, Null, Null]"
    by code_simp
  show ?thesis
    using h1 h3 h4 h5 period_column_fast_path [OF h1 h2] by simp
qed

lemma merge_row_other_columns:
  "m \<in> set (merge_row rc fxrows r) \<Longrightarrow> c \<noteq> ''rate_to_usd'' \<Longrightarrow> m c = r c"
  unfolding merge_row_def by (auto split: list.splits)

lemma merge_row_unmatched:
  "fx_matches fxrows r = [] \<Longrightarrow> merge_row rc fxrows r = [r(''rate_to_usd'' \<mapsto> Null)]"
  unfolding merge_row_def by simp

lemma merge_key_update:
  "c \<noteq> ''period'' \<Longrightarrow> c \<noteq> ''currency'' \<Longrightarrow> merge_key (r(c \<mapsto> v)) = merge_key r"
  unfolding merge_key_def cell_of_def by simp

lemma merge_key_cong:
  "m ''period'' = r ''period'' \<Longrightarrow> m ''currency'' = r ''currency'' \<Longrightarrow> merge_key m = merge_key r"
  unfolding merge_key_def cell_of_def by simp

lemma fx_matches_empty_iff:
  "fx_matches fxrows r = [] \<longleftrightarrow> merge_key r \<notin> set (map merge_key fxrows)"
  unfolding fx_matches_def by (force simp: filter_empty_conv image_iff)








lemma rows_merged:
  assumes "fx_merged L df fxt = Inr merged"
    and "ensure_period_columns L (default_currency df) = Inr df2"
    and "ensure_period_columns L fxt = Inr fx2"
  shows "\<exists>rc. rate_column fxt = Some rc \<and>
     rows merged =
       map (\<lambda>r. r(''rate_to_usd'' \<mapsto> fillna (Num (Fin 1)) (cell_of r ''rate_to_usd'')))
         (concat (map (merge_row rc (rows fx2)) (rows df2))) \<and>
     columns merged = columns df2 @ [(''rate_to_usd'', dtype_of fx2 rc)]"
  using fx_merged_InrD [OF assms(1)] assms(2,3)
  by (auto simp: fill_rate_def merge_left_def)

lemma rows_out:
  assumes "fx_to_usd L df fxt amount_col = Inr out"
  shows "\<exists>merged. fx_merged L df fxt = Inr merged \<and>
           length (rows out) = length (rows merged) \<and>
           (\<forall>i < length (rows merged). \<exists>v.
              rows out ! i = (rows merged ! i)(''amount_usd'' \<mapsto> v))"
  using converted_rows [OF assms] by blast

lemma in_set_rows_out:
  assumes "fx_to_usd L df fxt amount_col = Inr out" and "fx_merged L df fxt = Inr merged"
  shows "r' \<in> set (rows out) \<longleftrightarrow> (\<exists>m \<in> set (rows merged). \<exists>v. r' = m(''amount_usd'' \<mapsto> v) \<and> r' \<in> set (rows out))"
proof -
  from rows_out [OF assms(1)] assms(2) have
    len: "length (rows out) = length (rows merged)" and
    nth: "\<forall>i < length (rows merged). \<exists>v. rows out ! i = (rows merged ! i)(''amount_usd'' \<mapsto> v)"
    by auto
  show ?thesis
  proof
    assume "r' \<in> set (rows out)"
    then obtain i where i: "i < length (rows out)" "rows out ! i = r'"
      by (auto simp: in_set_conv_nth)
    with len nth obtain v where "r' = (rows merged ! i)(''amount_usd'' \<mapsto> v)"
      by auto
    moreover have "rows merged ! i \<in> set (rows merged)"
      using i len by simp
    ultimately show "\<exists>m \<in> set (rows merged). \<exists>v. r' = m(''amount_usd'' \<mapsto> v) \<and> r' \<in> set (rows out)"
      using \<open>r' \<in> set (rows out)\<close> by blast
  qed blast
qed

lemma merged_row_origin:
  assumes "fx_merged L df fxt = Inr merged"
    and "ensure_period_columns L (default_currency df) = Inr df2"
    and "ensure_period_columns L fxt = Inr fx2"
    and "m \<in> set (rows merged)"
  shows "\<exists>r0 \<in> set (rows df2). (\<forall>c. c \<noteq> ''rate_to_usd'' \<longrightarrow> m c = r0 c) \<and>
           (fx_matches (rows fx2) r0 = [] \<longrightarrow> m ''rate_to_usd'' = Some (Num (Fin 1)))"
proof -
  from rows_merged [OF assms(1-3)] obtain rc where
    rws: "rows merged =
       map (\<lambda>r. r(''rate_to_usd'' \<mapsto> fillna (Num (Fin 1)) (cell_of r ''rate_to_usd'')))
         (concat (map (merge_row rc (rows fx2)) (rows df2)))"
    by blast
  with assms(4) obtain r0 m0 where r0: "r0 \<in> set (rows df2)"
    and m0: "m0 \<in> set (merge_row rc (rows fx2) r0)"
    and m: "m = m0(''rate_to_usd'' \<mapsto> fillna (Num (Fin 1)) (cell_of m0 ''rate_to_usd''))"
    by auto
  have "m c = r0 c" if "c \<noteq> ''rate_to_usd''" for c
    using merge_row_other_columns [OF m0 that] m that by simp
  moreover have "m ''rate_to_usd'' = Some (Num (Fin 1))" if "fx_matches (rows fx2) r0 = []"
    using m0 m merge_row_unmatched [OF that, of rc]
    by (simp add: fillna_def cell_of_def)
  ultimately show ?thesis
    using r0 by blast
qed

lemma unmatched_row_in_merged:
  assumes "fx_merged L df fxt = Inr merged"
    and "ensure_period_columns L (default_currency df) = Inr df2"
    and "ensure_period_columns L fxt = Inr fx2"
    and "r \<in> set (rows df2)" and "fx_matches (rows fx2) r = []"
  shows "r(''rate_to_usd'' \<mapsto> Num (Fin 1)) \<in> set (rows merged)"
proof -
  from rows_merged [OF assms(1-3)] obtain rc where
    rws: "rows merged =
       map (\<lambda>r. r(''rate_to_usd'' \<mapsto> fillna (Num (Fin 1)) (cell_of r ''rate_to_usd'')))
         (concat (map (merge_row rc (rows fx2)) (rows df2)))"
    by blast
  have "r(''rate_to_usd'' \<mapsto> Null) \<in> set (merge_row rc (rows fx2) r)"
    using merge_row_unmatched [OF assms(5), of rc] by simp
  with assms(4) have "r(''rate_to_usd'' \<mapsto> Null) \<in> set (concat (map (merge_row rc (rows fx2)) (rows df2)))"
    unfolding set_concat set_map by blast
  then have "(\<lambda>r. r(''rate_to_usd'' \<mapsto> fillna (Num (Fin 1)) (cell_of r ''rate_to_usd'')))
               (r(''rate_to_usd'' \<mapsto> Null)) \<in> set (rows merged)"
    unfolding rws by (simp only: set_map image_eqI)
  then show ?thesis
    by (simp add: fillna_def cell_of_def)
qed

text \<open>
  Claim C3: when the converter succeeds, every record (after the default currency and
  the period normalization) whose (period, currency) pair has no entry in the normalized
  FX table is kept, with its other columns as they were and \<open>rate_to_usd = 1.0\<close>; and
  every output row with that pair has the rate 1.0.
\<close>

theorem missing_rate_defaults_to_one:
  assumes "fx_to_usd L df fxt amount_col = Inr out"
    and "ensure_period_columns L (default_currency df) = Inr df2"
    and "ensure_period_columns L fxt = Inr fx2"
    and "r \<in> set (rows df2)"
    and "merge_key r \<notin> set (map merge_key (rows fx2))"
  shows "(\<exists>r' \<in> set (rows out). cell_of r' ''rate_to_usd'' = Num (Fin 1) \<and>
            (\<forall>c. c \<noteq> ''rate_to_usd'' \<and> c \<noteq> ''amount_usd'' \<longrightarrow> r' c = r c)) \<and>
         (\<forall>r' \<in> set (rows out). merge_key r' = merge_key r \<longrightarrow>
            cell_of r' ''rate_to_usd'' = Num (Fin 1))"
proof -
  from rows_out [OF assms(1)] obtain merged where
    mg: "fx_merged L df fxt = Inr merged" and
    len: "length (rows out) = length (rows merged)" and
    nth: "\<forall>i < length (rows merged). \<exists>v. rows out ! i = (rows merged ! i)(''amount_usd'' \<mapsto> v)"
    by blast
  have nomatch: "fx_matches (rows fx2) r = []"
    using assms(5) by (simp add: fx_matches_empty_iff)
  have kept: "\<exists>r' \<in> set (rows out). cell_of r' ''rate_to_usd'' = Num (Fin 1) \<and>
            (\<forall>c. c \<noteq> ''rate_to_usd'' \<and> c \<noteq> ''amount_usd'' \<longrightarrow> r' c = r c)"
  proof -
    from unmatched_row_in_merged [OF mg assms(2,3,4) nomatch]
    obtain i where i: "i < length (rows merged)"
      and mi: "rows merged ! i = r(''rate_to_usd'' \<mapsto> Num (Fin 1))"
      by (auto simp: in_set_conv_nth)
    from nth i mi obtain v where
      o: "rows out ! i = (r(''rate_to_usd'' \<mapsto> Num (Fin 1)))(''amount_usd'' \<mapsto> v)"
      by auto
    have "rows out ! i \<in> set (rows out)"
      using i len by simp
    moreover have "cell_of (rows out ! i) ''rate_to_usd'' = Num (Fin 1)"
      unfolding o by (simp add: cell_of_def)
    moreover have "\<forall>c. c \<noteq> ''rate_to_usd'' \<and> c \<noteq> ''amount_usd'' \<longrightarrow> (rows out ! i) c = r c"
      unfolding o by simp
    ultimately show ?thesis by blast
  qed
  have same: "cell_of r' ''rate_to_usd'' = Num (Fin 1)"
    if r': "r' \<in> set (rows out)" and k: "merge_key r' = merge_key r" for r'
  proof -
    from r' obtain i where i: "i < length (rows out)" "rows out ! i = r'"
      by (auto simp: in_set_conv_nth)
    with len nth obtain v where o: "r' = (rows merged ! i)(''amount_usd'' \<mapsto> v)"
      by auto
    have "rows merged ! i \<in> set (rows merged)"
      using i len by simp
    from merged_row_origin [OF mg assms(2,3) this] obtain r0 where
      r0: "r0 \<in> set (rows df2)" and
      eq: "\<forall>c. c \<noteq> ''rate_to_usd'' \<longrightarrow> (rows merged ! i) c = r0 c" and
      one: "fx_matches (rows fx2) r0 = [] \<longrightarrow> (rows merged ! i) ''rate_to_usd'' = Some (Num (Fin 1))"
      by blast
    have "merge_key r' = merge_key r0"
      by (rule merge_key_cong) (simp_all add: o eq)
    with k have "fx_matches (rows fx2) r0 = fx_matches (rows fx2) r"
      unfolding fx_matches_def by simp
    with nomatch one have "(rows merged ! i) ''rate_to_usd'' = Some (Num (Fin 1))"
      by simp
    then show ?thesis
      unfolding o by (simp add: cell_of_def)
  qed
  from kept same show ?thesis by blast
qed




lemma two_currency_view:
  "converted_view sample_lib (fx_to_usd sample_lib two_currency_table sample_fx ''amount'') =
     Inr [(Str ''EUR'', Num (Fin 1000), Num (Fin (11 / 10)), Num (Fin 1100), True),
          (Str ''GBP'', Num (Fin 500), Num (Fin 1), Num (Fin 500), True)]"
  by code_simp

lemma two_currency_converted:
  "\<exists>out. fx_to_usd sample_lib two_currency_table sample_fx ''amount'' = Inr out \<and>
     length (rows out) = 2 \<and>
     cell_of (rows out ! 0) ''rate_to_usd'' = Num (Fin (11 / 10)) \<and>
     cell_of (rows out ! 0) ''amount_usd'' = Num (Fin 1100)"
proof (cases "fx_to_usd sample_lib two_currency_table sample_fx ''amount''")
  case (Inl e)
  with two_currency_view show ?thesis
    by (simp add: converted_view_def)
next
  case (Inr out)
  with two_currency_view have
    m: "map (\<lambda>r. (cell_of r ''currency'', cell_of r ''amount'', cell_of r ''rate_to_usd'',
                          cell_of r ''amount_usd'',
                          within_tolerance (num_of (cell_of r ''amount_usd''))
                            (fmul (amount_value sample_lib (cell_of r ''amount''))
                               (num_of (cell_of r ''rate_to_usd'')))))
                 (rows out) =
        [(Str ''EUR'', Num (Fin 1000), Num (Fin (11 / 10)), Num (Fin 1100), True),
          (Str ''GBP'', Num (Fin 500), Num (Fin 1), Num (Fin 500), True)]"
    by (simp add: converted_view_def)
  from arg_cong [OF m, of length] have len: "length (rows out) = 2"
    by simp
  from arg_cong [OF m, of "\<lambda>xs. xs ! 0"] len have
    "cell_of (rows out ! 0) ''rate_to_usd'' = Num (Fin (11 / 10))"
    "cell_of (rows out ! 0) ''amount_usd'' = Num (Fin 1100)"
    by simp_all
  with Inr len show ?thesis by simp
qed



text \<open>
  The witness of claim C3: the GBP row of the two-currency table has no FX entry and
  comes out with the rate 1.0.
\<close>

theorem missing_rate_witness:
  "\<exists>out r'. fx_to_usd sample_lib two_currency_table sample_fx ''amount'' = Inr out \<and>
     r' \<in> set (rows out) \<and> r' ''currency'' = Some (Str ''GBP'') \<and>
     r' ''amount'' = Some (Num (Fin 500)) \<and> cell_of r' ''rate_to_usd'' = Num (Fin 1)"
proof -
  define X where "X = set_column ''period'' Datetime
      (map (\<lambda>x. month_start (to_datetime sample_lib x))
         (column_lower (default_currency two_currency_table) ''period''))
      (default_currency two_currency_table)"
  define F where "F = set_column ''period'' Datetime
      (map (\<lambda>x. month_start (to_datetime sample_lib x)) (column_lower sample_fx ''period''))
      sample_fx"
  from two_currency_converted obtain out where
    out: "fx_to_usd sample_lib two_currency_table sample_fx ''amount'' = Inr out"
    by blast
  have a1: "''period'' \<in> set (map lower (col_names (default_currency two_currency_table)))"
    by code_simp
  have a2: "\<exists>x \<in> set (column_lower (default_currency two_currency_table) ''period'').
              to_datetime sample_lib x \<noteq> None"
    by code_simp
  have b1: "''period'' \<in> set (map lower (col_names sample_fx))"
    by code_simp
  have b2: "\<exists>x \<in> set (column_lower sample_fx ''period''). to_datetime sample_lib x \<noteq> None"
    by code_simp
  have df2: "ensure_period_columns sample_lib (default_currency two_currency_table) = Inr X"
    unfolding X_def by (rule fast_path_result [OF a1 a2])
  have fx2: "ensure_period_columns sample_lib sample_fx = Inr F"
    unfolding F_def by (rule fast_path_result [OF b1 b2])
  have len: "1 < length (rows X)"
    unfolding X_def by code_simp
  then have mem: "rows X ! 1 \<in> set (rows X)"
    by simp
  have key: "merge_key (rows X ! 1) \<notin> set (map merge_key (rows F))"
    unfolding X_def F_def by code_simp
  have cur: "(rows X ! 1) ''currency'' = Some (Str ''GBP'')"
    and amt: "(rows X ! 1) ''amount'' = Some (Num (Fin 500))"
    unfolding X_def by code_simp+
  from missing_rate_defaults_to_one [OF out df2 fx2 mem key] obtain r' where
    "r' \<in> set (rows out)" "cell_of r' ''rate_to_usd'' = Num (Fin 1)"
    "\<forall>c. c \<noteq> ''rate_to_usd'' \<and> c \<noteq> ''amount_usd'' \<longrightarrow> r' c = (rows X ! 1) c"
    by blast
  with cur amt out show ?thesis
    by (intro exI [of _ out] exI [of _ r']) simp
qed





section \<open>Revenue against budget\<close>






section \<open>Cash runway\<close>

lemma runway_cash_mono: "fle c1 c2 \<Longrightarrow> fle (runway_of c1 b) (runway_of c2 b)"
  by (cases c1; cases c2; cases b)
    (auto simp: runway_of_def fle_def not_less intro: divide_strict_right_mono order.not_eq_order_implies_strict)

lemma runway_burn_antimono:
  "flt (Fin 0) c \<Longrightarrow> isfinite b1 \<Longrightarrow> fle b2 b1 \<Longrightarrow> fle (runway_of c b1) (runway_of c b2)"
  by (cases c; cases b1; cases b2)
    (auto simp: runway_of_def fle_def not_less intro!: divide_strict_left_mono mult_pos_pos
      intro: order.not_eq_order_implies_strict less_trans)

lemma runway_nonpositive_burn: "fle b (Fin 0) \<Longrightarrow> runway_of c b = PInf"
  by (simp add: runway_of_def)

lemma burn_cases: "fle x (Fin 0) \<or> \<not> isfinite x \<or> (isfinite x \<and> flt (Fin 0) x)"
  by (cases x) (auto simp: fle_def)

lemma cash_runway_months_InrD:
  assumes "cash_runway_months L d = Inr (cash_usd, runway)"
  shows "\<exists>e cash_df. ebitda_proxy L d = Inr e \<and>
           fx_to_usd L (cash d) (fx d) ''amount'' = Inr cash_df \<and>
           cash_usd = latest_cash_usd cash_df \<and> runway = runway_of cash_usd (average_burn e)"
  using assms unfolding cash_runway_months_def
  by (auto split: sum.splits)

text \<open>
  Claim C5, amended: when \<open>cash_runway_months\<close> returns, the cash balance is the
  \<open>amount_usd\<close> of the last cash row by period, and with the average burn (the mean of
  the negated EBITDA proxy over the last three periods) the runway is infinite whenever
  the average is at most 0 or is not a finite number (NaN when there is no period, or an
  infinite sum), and is the cash balance divided by the average whenever the average is
  finite and positive. These three cases cover every value of the average.
\<close>

theorem cash_runway_months_result:
  assumes "cash_runway_months L d = Inr (cash_usd, runway)"
  shows "\<exists>e cash_df. ebitda_proxy L d = Inr e \<and>
           fx_to_usd L (cash d) (fx d) ''amount'' = Inr cash_df \<and>
           cash_usd = latest_cash_usd cash_df \<and>
           (fle (average_burn e) (Fin 0) \<longrightarrow> runway = PInf) \<and>
           (\<not> isfinite (average_burn e) \<longrightarrow> runway = PInf) \<and>
           (isfinite (average_burn e) \<and> flt (Fin 0) (average_burn e) \<longrightarrow>
              runway = fdiv cash_usd (average_burn e))"
proof -
  from cash_runway_months_InrD [OF assms] obtain e cash_df where
    e: "ebitda_proxy L d = Inr e" and
    c: "fx_to_usd L (cash d) (fx d) ''amount'' = Inr cash_df" and
    cu: "cash_usd = latest_cash_usd cash_df" and
    r: "runway = runway_of cash_usd (average_burn e)"
    by blast
  have "isfinite x \<and> flt (Fin 0) x \<Longrightarrow> \<not> fle x (Fin 0)" for x
    by (cases x) (auto simp: fle_def)
  then have "(fle (average_burn e) (Fin 0) \<longrightarrow> runway = PInf) \<and>
           (\<not> isfinite (average_burn e) \<longrightarrow> runway = PInf) \<and>
           (isfinite (average_burn e) \<and> flt (Fin 0) (average_burn e) \<longrightarrow>
              runway = fdiv cash_usd (average_burn e))"
    unfolding r runway_of_def by simp
  with e c cu show ?thesis by (intro exI [of _ e] exI [of _ cash_df]) simp
qed

lemma two_month_runway:
  "cash_runway_months sample_lib two_month_data = Inr (Fin 50000, Fin (500 / 3))"
  by code_simp

lemma two_month_burn:
  "map_sum id average_burn (ebitda_proxy sample_lib two_month_data) = Inr (Fin 300)"
  by code_simp

text \<open>
  The witness: two months each with an EBITDA proxy of -300, a cash balance of 50000 and
  a runway of 50000 / 300.
\<close>

theorem cash_runway_months_witness:
  "cash_runway_months sample_lib two_month_data = Inr (Fin 50000, Fin (500 / 3)) \<and>
   map_sum id average_burn (ebitda_proxy sample_lib two_month_data) = Inr (Fin 300) \<and>
   isfinite (Fin 300) \<and> flt (Fin 0) (Fin 300) \<and> Fin (500 / 3) = fdiv (Fin 50000) (Fin 300)"
proof -
  from cash_runway_months_result [OF two_month_runway] obtain e where
    e: "ebitda_proxy sample_lib two_month_data = Inr e" and
    r: "isfinite (average_burn e) \<and> flt (Fin 0) (average_burn e) \<longrightarrow>
              Fin (500 / 3) = fdiv (Fin 50000) (average_burn e)"
    by blast
  from e two_month_burn have ab: "average_burn e = Fin 300"
    by simp
  have pos: "isfinite (Fin 300)" "flt (Fin 0) (Fin 300)"
    by simp_all
  from r pos have q: "Fin (500 / 3) = fdiv (Fin 50000) (Fin 300)"
    unfolding ab by blast
  show ?thesis
    by (intro conjI) (rule two_month_runway two_month_burn pos q)+
qed

text \<open>
  Claim C5, as stated, fails when the average burn is +infinity (an opex amount of
  \<open>inf\<close>): the average is not at most 0, the claim gives 50000 / inf = 0 for the runway,
  and the function returns infinity, by its test \<open>not np.isfinite(avg_burn)\<close>.
\<close>

theorem infinite_burn_counterexample:
  "cash_runway_months sample_lib infinite_opex_data = Inr (Fin 50000, PInf) \<and>
   map_sum id average_burn (ebitda_proxy sample_lib infinite_opex_data) = Inr PInf \<and>
   \<not> fle PInf (Fin 0) \<and> fdiv (Fin 50000) PInf = Fin 0"
  by code_simp

text \<open>
  Claim C7, amended: \<open>cash_runway_months\<close> returns \<open>runway_of\<close> of the cash
  balance and the average burn; for a fixed average burn, a larger cash balance never
  gives a smaller runway; for a fixed positive cash balance and a finite average burn,
  a smaller average burn never gives a smaller runway; and the runway is infinite once
  the average burn is at most 0.
\<close>

theorem runway_monotone:
  "(cash_runway_months L d = Inr (cash_usd, runway) \<longrightarrow>
      (\<exists>e. ebitda_proxy L d = Inr e \<and> runway = runway_of cash_usd (average_burn e))) \<and>
   (fle c1 c2 \<longrightarrow> fle (runway_of c1 b) (runway_of c2 b)) \<and>
   (flt (Fin 0) c \<and> isfinite b1 \<and> fle b2 b1 \<longrightarrow> fle (runway_of c b1) (runway_of c b2)) \<and>
   (fle b0 (Fin 0) \<longrightarrow> runway_of c0 b0 = PInf)"
proof (intro conjI impI)
  assume "cash_runway_months L d = Inr (cash_usd, runway)"
  from cash_runway_months_InrD [OF this]
  show "\<exists>e. ebitda_proxy L d = Inr e \<and> runway = runway_of cash_usd (average_burn e)"
    by blast
next
  assume "fle c1 c2"
  then show "fle (runway_of c1 b) (runway_of c2 b)"
    by (rule runway_cash_mono)
next
  assume "flt (Fin 0) c \<and> isfinite b1 \<and> fle b2 b1"
  then show "fle (runway_of c b1) (runway_of c b2)"
    by (simp add: runway_burn_antimono)
next
  assume "fle b0 (Fin 0)"
  then show "runway_of c0 b0 = PInf"
    by (rule runway_nonpositive_burn)
qed

text \<open>
  The witness: cash 1000 against 2000 at a burn of 10, a burn of 20 against 10 at a cash
  balance of 1000, and a burn of 0.
\<close>

theorem runway_monotone_witness:
  "cash_runway_months sample_lib two_month_data = Inr (Fin 50000, Fin (500 / 3)) \<and>
   fle (Fin 1000) (Fin 2000) \<and> fle (runway_of (Fin 1000) (Fin 10)) (runway_of (Fin 2000) (Fin 10)) \<and>
   flt (Fin 0) (Fin 1000) \<and> isfinite (Fin 20) \<and> fle (Fin 10) (Fin 20) \<and>
   fle (runway_of (Fin 1000) (Fin 20)) (runway_of (Fin 1000) (Fin 10)) \<and>
   fle (Fin 0) (Fin 0) \<and> runway_of (Fin 1000) (Fin 0) = PInf"
proof -
  have h1: "fle (Fin 1000) (Fin 2000)" by code_simp
  have h2: "flt (Fin 0) (Fin 1000) \<and> isfinite (Fin 20) \<and> fle (Fin 10) (Fin 20)" by code_simp
  have h2': "flt (Fin 0) (Fin 1000)" "isfinite (Fin 20)" "fle (Fin 10) (Fin 20)" by code_simp+
  have h3: "fle (Fin 0) (Fin 0)" by code_simp
  note m = runway_monotone [of sample_lib two_month_data "Fin 50000" "Fin (500 / 3)"
      "Fin 1000" "Fin 2000" "Fin 10" "Fin 1000" "Fin 20" "Fin 10" "Fin 0" "Fin 1000"]
  have a: "fle (runway_of (Fin 1000) (Fin 10)) (runway_of (Fin 2000) (Fin 10))"
    using m [THEN conjunct2, THEN conjunct1] h1 by (rule mp)
  have b: "fle (runway_of (Fin 1000) (Fin 20)) (runway_of (Fin 1000) (Fin 10))"
    using m [THEN conjunct2, THEN conjunct2, THEN conjunct1] h2 by (rule mp)
  have c: "runway_of (Fin 1000) (Fin 0) = PInf"
    using m [THEN conjunct2, THEN conjunct2, THEN conjunct2] h3 by (rule mp)
  show ?thesis
    by (intro conjI) (rule two_month_runway h1 h2' h3 a b c)+
qed

text \<open>
  Claim C7, as stated, fails at an average burn of +infinity: the runway there is
  infinite (the burn is not finite), and decreasing the burn to 10 decreases the runway
  to 100.
\<close>

theorem infinite_burn_not_monotone:
  "fle (Fin 10) PInf \<and> flt (Fin 0) (Fin 1000) \<and>
   runway_of (Fin 1000) PInf = PInf \<and> runway_of (Fin 1000) (Fin 10) = Fin 100 \<and>
   \<not> fle (runway_of (Fin 1000) PInf) (runway_of (Fin 1000) (Fin 10))"
  by code_simp

section \<open>Monthly comparison\<close>













end
